theory Spec2Isabelle
  imports Complex_Main
begin

section \<open>Python string operations used by the agent nodes\<close>

text \<open>
  A Python \<open>str\<close> is modelled as a \<open>string\<close>, one \<open>char\<close> per character, so the model
  covers text in the 8-bit range; \<open>len\<close> is \<open>length\<close>. The operations below follow
  \<open>in\<close>, \<open>str.lower\<close>, \<open>str.upper\<close>, \<open>str.strip\<close> and \<open>str.split\<close> on such text
  (the case mapping is the ASCII one).
\<close>

fun starts_with :: "string \<Rightarrow> string \<Rightarrow> bool" where
  "starts_with [] s = True"
| "starts_with (k # ks) [] = False"
| "starts_with (k # ks) (c # cs) = (k = c \<and> starts_with ks cs)"

text \<open>\<open>str_contains k s\<close> is Python's \<open>k in s\<close> for two strings.\<close>

fun str_contains :: "string \<Rightarrow> string \<Rightarrow> bool" where
  "str_contains k [] = (k = [])"
| "str_contains k (c # cs) = (starts_with k (c # cs) \<or> str_contains k cs)"

definition upper_letters :: string where
  "upper_letters = ''ABCDEFGHIJKLMNOPQRSTUVWXYZ''"

definition lower_letters :: string where
  "lower_letters = ''abcdefghijklmnopqrstuvwxyz''"

definition lower_char :: "char \<Rightarrow> char" where
  "lower_char c = (case map_of (zip upper_letters lower_letters) c of Some d \<Rightarrow> d | None \<Rightarrow> c)"

definition upper_char :: "char \<Rightarrow> char" where
  "upper_char c = (case map_of (zip lower_letters upper_letters) c of Some d \<Rightarrow> d | None \<Rightarrow> c)"

definition str_lower :: "string \<Rightarrow> string" where
  "str_lower s = map lower_char s"

definition str_upper :: "string \<Rightarrow> string" where
  "str_upper s = map upper_char s"

text \<open>The characters that \<open>str.strip()\<close> removes: those for which \<open>str.isspace\<close> holds.\<close>

definition whitespace_chars :: "char list" where
  "whitespace_chars =
     [CHR 0x09, CHR 0x0A, CHR 0x0B, CHR 0x0C, CHR 0x0D,
      CHR 0x1C, CHR 0x1D, CHR 0x1E, CHR 0x1F, CHR 0x20, CHR 0x85, CHR 0xA0]"

definition is_space :: "char \<Rightarrow> bool" where
  "is_space c = (c \<in> set whitespace_chars)"

definition str_strip :: "string \<Rightarrow> string" where
  "str_strip s = rev (dropWhile is_space (rev (dropWhile is_space s)))"

text \<open>
  \<open>str_split sep s\<close> is \<open>s.split(sep)\<close> for a one-character separator. The result is never
  the empty list: splitting the empty string gives the list that holds the empty string.
\<close>

fun str_split :: "char \<Rightarrow> string \<Rightarrow> string list" where
  "str_split sep [] = [[]]"
| "str_split sep (c # cs) =
     (if c = sep then [] # str_split sep cs
      else (case str_split sep cs of
              [] \<Rightarrow> [[c]]
            | w # ws \<Rightarrow> (c # w) # ws))"

section \<open>Prompt templates and fixed messages (app/agent/prompts.py)\<close>

definition CLASSIFICATION_PROMPT :: string where
  \<open>CLASSIFICATION_PROMPT =
     ''You are an AI assistant that classifies customer messages into intents.\<newline>'' @
     ''\<newline>'' @
     ''Analyze the following message and classify it into ONE of these categories:\<newline>'' @
     ''- SUPPORT: Customer support queries, issues, complaints, or requests for help\<newline>'' @
     ''- SALES: Sales inquiries, pricing questions, product information requests\<newline>'' @
     ''- GENERAL: General questions, greetings, or casual conversation\<newline>'' @
     ''- URGENT: Messages indicating urgency, frustration, or requiring immediate human attention\<newline>'' @
     ''\<newline>'' @
     ''Consider the following indicators for URGENT classification:\<newline>'' @
     ''- Strong negative emotions (anger, frustration, distress)\<newline>'' @
     ''- Words like "ridiculous", "unacceptable", "immediately", "asap"\<newline>'' @
     ''- Multiple exclamation marks\<newline>'' @
     ''- Mentions of legal action or complaints\<newline>'' @
     ''- Critical issues (billing errors, payment problems, account access issues)\<newline>'' @
     ''\<newline>'' @
     ''Message: {message}\<newline>'' @
     ''\<newline>'' @
     ''Previous context (if any): {context}\<newline>'' @
     ''\<newline>'' @
     ''Respond with ONLY the classification (SUPPORT, SALES, GENERAL, or URGENT) and a brief reason.\<newline>'' @
     ''Format: CLASSIFICATION: <category>\<newline>'' @
     ''REASON: <brief explanation>\<newline>''\<close>

definition SUPPORT_RESPONSE_PROMPT_A :: string where
  \<open>SUPPORT_RESPONSE_PROMPT_A =
     ''You are a professional and empathetic customer support agent.\<newline>'' @
     ''\<newline>'' @
     ''Your task is to respond to the customer's support query with:\<newline>'' @
     ''- Empathy and understanding\<newline>'' @
     ''- Professional tone\<newline>'' @
     ''- Clear and helpful information\<newline>'' @
     ''- Request for additional details if needed (e.g., order number, account email)\<newline>'' @
     ''- Reassurance that you're here to help\<newline>'' @
     ''\<newline>'' @
     ''Customer Message: {message}\<newline>'' @
     ''\<newline>'' @
     ''Conversation Context: {context}\<newline>'' @
     ''\<newline>'' @
     ''Generate a helpful and empathetic response. Keep it concise (2-3 sentences).\<newline>''\<close>

definition SUPPORT_RESPONSE_PROMPT_B :: string where
  \<open>SUPPORT_RESPONSE_PROMPT_B =
     ''You are a highly empathetic, solution-focused customer support specialist.\<newline>'' @
     ''\<newline>'' @
     ''Your task is to:\<newline>'' @
     ''- Acknowledge the customer's feelings first\<newline>'' @
     ''- Clearly explain what you can do next\<newline>'' @
     ''- Ask only for the minimum necessary details\<newline>'' @
     ''- Reassure them that their issue is being prioritized\<newline>'' @
     ''\<newline>'' @
     ''Customer Message: {message}\<newline>'' @
     ''\<newline>'' @
     ''Conversation Context: {context}\<newline>'' @
     ''\<newline>'' @
     ''Generate a concise response (2-3 sentences) that is calm, empathetic, and action-oriented.\<newline>''\<close>

definition SALES_RESPONSE_PROMPT_A :: string where
  \<open>SALES_RESPONSE_PROMPT_A =
     ''You are a persuasive and informative sales agent.\<newline>'' @
     ''\<newline>'' @
     ''Your task is to respond to the customer's sales inquiry with:\<newline>'' @
     ''- Enthusiastic and professional tone\<newline>'' @
     ''- Clear product/pricing information (if you have it, otherwise offer to provide it)\<newline>'' @
     ''- Value propositions and benefits\<newline>'' @
     ''- Call-to-action (schedule demo, request more info, etc.)\<newline>'' @
     ''- Lead qualification questions when appropriate\<newline>'' @
     ''\<newline>'' @
     ''Customer Message: {message}\<newline>'' @
     ''\<newline>'' @
     ''Conversation Context: {context}\<newline>'' @
     ''\<newline>'' @
     ''Generate a persuasive sales response. Keep it concise (2-3 sentences) and engaging.\<newline>''\<close>

definition SALES_RESPONSE_PROMPT_B :: string where
  \<open>SALES_RESPONSE_PROMPT_B =
     ''You are a consultative B2B sales specialist.\<newline>'' @
     ''\<newline>'' @
     ''Your task is to:\<newline>'' @
     ''- Confirm understanding of the customer's need\<newline>'' @
     ''- Share 1-2 key value propositions\<newline>'' @
     ''- Offer a clear next step (demo, call, or proposal)\<newline>'' @
     ''\<newline>'' @
     ''Customer Message: {message}\<newline>'' @
     ''\<newline>'' @
     ''Conversation Context: {context}\<newline>'' @
     ''\<newline>'' @
     ''Generate a concise (2-3 sentences) response that feels consultative, not pushy.\<newline>''\<close>

definition GENERAL_RESPONSE_PROMPT_A :: string where
  \<open>GENERAL_RESPONSE_PROMPT_A =
     ''You are a friendly and helpful AI assistant.\<newline>'' @
     ''\<newline>'' @
     ''Your task is to respond to general inquiries or casual conversation with:\<newline>'' @
     ''- Friendly and approachable tone\<newline>'' @
     ''- Helpful information\<newline>'' @
     ''- Offer to assist with specific questions\<newline>'' @
     ''\<newline>'' @
     ''Customer Message: {message}\<newline>'' @
     ''\<newline>'' @
     ''Conversation Context: {context}\<newline>'' @
     ''\<newline>'' @
     ''Generate a friendly response. Keep it concise (1-2 sentences).\<newline>''\<close>

definition GENERAL_RESPONSE_PROMPT_B :: string where
  \<open>GENERAL_RESPONSE_PROMPT_B =
     ''You are a concise, friendly AI assistant.\<newline>'' @
     ''\<newline>'' @
     ''Your task is to:\<newline>'' @
     ''- Greet the user briefly\<newline>'' @
     ''- Acknowledge their message\<newline>'' @
     ''- Offer concrete next help\<newline>'' @
     ''\<newline>'' @
     ''Customer Message: {message}\<newline>'' @
     ''\<newline>'' @
     ''Conversation Context: {context}\<newline>'' @
     ''\<newline>'' @
     ''Generate a short (1-2 sentences) response that is warm and clear.\<newline>''\<close>

definition ESCALATION_MESSAGE :: string where
  \<open>ESCALATION_MESSAGE =
     ''I understand this is important to you, and I want to make sure you get the best possible assistance. I'm connecting you with a human agent who will be able to help you right away. They'll be with you shortly.\<newline>'' @
     ''\<newline>'' @
     ''In the meantime, your case has been flagged as high priority.''\<close>

definition MOCK_SUPPORT :: string where
  \<open>MOCK_SUPPORT =
     ''Thank you for reaching out! I understand your concern. Could you please provide your order number or account email so I can look into this for you right away?''\<close>

definition MOCK_SALES :: string where
  \<open>MOCK_SALES =
     ''Thank you for your interest in our enterprise plan! For 50 users, our pricing starts at $X per month. I'd be happy to schedule a demo to show you all the features. Would that work for you?''\<close>

definition MOCK_GENERAL :: string where
  \<open>MOCK_GENERAL =
     ''Hello! Thanks for getting in touch. How can I assist you today?''\<close>

text \<open>\<open>MOCK_RESPONSES\<close>: the dictionary of fixed replies, in the order it is written.\<close>

definition MOCK_RESPONSES :: "(string \<times> string) list" where
  "MOCK_RESPONSES =
     [(''support'', MOCK_SUPPORT),
      (''sales'', MOCK_SALES),
      (''general'', MOCK_GENERAL),
      (''urgent'', ESCALATION_MESSAGE)]"

section \<open>Request state, settings and collaborators\<close>

text \<open>
  The state is a Python dictionary. Each key the nodes read or write is an optional field
  (\<open>None\<close>: the key is absent); every other key of the dictionary lives in the extension
  part of the record, which no node touches.
\<close>

type_synonym history_entry = "string \<times> string"

record agent_state =
  message :: "string option"
  conversation_history :: "history_entry list option"
  language :: "string option"
  prompt_variant :: "string option"
  intent :: "string option"
  classification_reason :: "string option"
  formatted_context :: "string option"
  sentiment_score :: "real option"
  requires_escalation :: "bool option"
  escalation_reason :: "string option"
  response :: "string option"
  response_valid :: "bool option"

text \<open>The empty dictionary \<open>{}\<close>.\<close>

definition empty_state :: agent_state where
  "empty_state =
     \<lparr>message = None, conversation_history = None, language = None, prompt_variant = None,
      intent = None, classification_reason = None, formatted_context = None,
      sentiment_score = None, requires_escalation = None, escalation_reason = None,
      response = None, response_valid = None\<rparr>"

text \<open>\<open>state.get(key, default)\<close> and the truth value of \<open>state.get(key)\<close>.\<close>

definition get_or :: "'a option \<Rightarrow> 'a \<Rightarrow> 'a" where
  "get_or v d = (case v of None \<Rightarrow> d | Some x \<Rightarrow> x)"

definition truthy :: "bool option \<Rightarrow> bool" where
  "truthy v = (case v of None \<Rightarrow> False | Some b \<Rightarrow> b)"

text \<open>The options of \<open>Settings\<close> (app/config.py) that the nodes read.\<close>

record settings =
  agent_prompt_variant :: string
  agent_default_language :: string
  agent_auto_detect_language :: bool

text \<open>The values \<open>Settings\<close> declares as defaults.\<close>

definition default_settings :: settings where
  "default_settings =
     \<lparr>agent_prompt_variant = ''A'', agent_default_language = ''en'',
      agent_auto_detect_language = True\<rparr>"

text \<open>
  The helper module app/agent/tools.py is imported by the nodes but is not part of the
  sources at hand. Its six functions are parameters of the model: every theorem below that
  is stated for a variable \<open>T\<close> holds for any implementation of them. Sentiment scores are
  Python floats; a score and the literal \<open>-0.6\<close> it is compared with are read as real
  numbers, the literal as the decimal it is written as.
\<close>

record tools =
  detect_urgency :: "string \<Rightarrow> bool"
  extract_sentiment_indicators :: "string \<Rightarrow> real"
  format_context :: "history_entry list \<Rightarrow> string"
  detect_language :: "string \<Rightarrow> string"
  select_prompt_variant :: "string \<Rightarrow> string \<Rightarrow> string"
  adjust_response_for_sentiment :: "string \<Rightarrow> real \<Rightarrow> string"

text \<open>
  The LLM client \<open>self.llm\<close> is \<open>None\<close> or an object whose \<open>invoke\<close> is given the prompt
  template filled with \<open>message\<close> and \<open>context\<close>; it returns the reply's text or raises.
\<close>

datatype exn = ProviderError string | IndexError

type_synonym llm = "string \<Rightarrow> string \<Rightarrow> string \<Rightarrow> exn + string"

text \<open>
  What a node does besides updating the state is recorded as a list of events, in order:
  each call of the provider (with the template, the message and the context it was given)
  and each call of the rule-based classifier.
\<close>

datatype event = Invoke string string string | RuleBased string

section \<open>The agent nodes (app/agent/nodes.py)\<close>

subsection \<open>Classification\<close>

definition sales_keywords :: "string list" where
  "sales_keywords =
     [''price'', ''pricing'', ''cost'', ''buy'', ''purchase'', ''plan'', ''enterprise'', ''demo'']"

definition support_keywords :: "string list" where
  "support_keywords =
     [''order'', ''tracking'', ''issue'', ''problem'', ''help'', ''support'', ''not working'']"

definition rule_based_classification :: "string \<Rightarrow> string" where
  "rule_based_classification msg =
     (let message_lower = str_lower msg in
      if list_ex (\<lambda>keyword. str_contains keyword message_lower) sales_keywords then ''sales''
      else if list_ex (\<lambda>keyword. str_contains keyword message_lower) support_keywords
        then ''support''
      else ''general'')"

definition classification_marker :: string where
  "classification_marker = ''CLASSIFICATION:''"

text \<open>
  The parsing of the provider's reply: the first line that contains the marker, its second
  field when split at colons, stripped and lowercased. Both subscripts raise \<open>IndexError\<close>
  when out of range.
\<close>

definition parse_classification :: "string \<Rightarrow> exn + string" where
  "parse_classification response_text =
     (case filter (str_contains classification_marker) (str_split CHR 0x0A response_text) of
        [] \<Rightarrow> Inl IndexError
      | intent_line # _ \<Rightarrow>
          (case str_split CHR '':'' intent_line of
             _ # field # _ \<Rightarrow> Inr (str_lower (str_strip field))
           | _ \<Rightarrow> Inl IndexError))"

text \<open>
  The body of the \<open>try\<close> block of \<open>classify_message\<close>: the new state, or the exception that
  leaves the block, together with the events up to that point.
\<close>

definition classify_try ::
  "llm \<Rightarrow> string \<Rightarrow> string \<Rightarrow> 'a agent_state_scheme
     \<Rightarrow> (exn + 'a agent_state_scheme) \<times> event list" where
  "classify_try p msg context st =
     (case p CLASSIFICATION_PROMPT msg context of
        Inl e \<Rightarrow> (Inl e, [Invoke CLASSIFICATION_PROMPT msg context])
      | Inr response_text \<Rightarrow>
          if str_contains classification_marker response_text then
            (case parse_classification response_text of
               Inl e \<Rightarrow> (Inl e, [Invoke CLASSIFICATION_PROMPT msg context])
             | Inr i \<Rightarrow>
                 (Inr (st\<lparr>intent := Some i, classification_reason := Some response_text\<rparr>),
                  [Invoke CLASSIFICATION_PROMPT msg context]))
          else
            (Inr (st\<lparr>intent := Some (rule_based_classification msg)\<rparr>),
             [Invoke CLASSIFICATION_PROMPT msg context, RuleBased msg]))"

definition classify_message ::
  "tools \<Rightarrow> settings \<Rightarrow> llm option \<Rightarrow> 'a agent_state_scheme
     \<Rightarrow> 'a agent_state_scheme \<times> event list" where
  "classify_message T cfg llm_client st =
     (let msg = get_or (message st) '''';
          lang = (if agent_auto_detect_language cfg then detect_language T msg
                  else agent_default_language cfg);
          st1 = st\<lparr>language := Some lang,
                   prompt_variant := Some (str_upper (agent_prompt_variant cfg))\<rparr>;
          context = format_context T (get_or (conversation_history st) [])
      in if detect_urgency T msg then
           (st1\<lparr>intent := Some ''urgent'', requires_escalation := Some True\<rparr>, [])
         else
           (case llm_client of
              Some p \<Rightarrow>
                (case classify_try p msg context st1 of
                   (Inr st2, evs) \<Rightarrow> (st2, evs)
                 | (Inl e, evs) \<Rightarrow>
                     (st1\<lparr>intent := Some (rule_based_classification msg)\<rparr>,
                      evs @ [RuleBased msg]))
            | None \<Rightarrow>
                (st1\<lparr>intent := Some (rule_based_classification msg)\<rparr>, [RuleBased msg])))"

subsection \<open>Context retrieval\<close>

definition retrieve_context ::
  "tools \<Rightarrow> 'a agent_state_scheme \<Rightarrow> 'a agent_state_scheme \<times> event list" where
  "retrieve_context T st =
     (st\<lparr>formatted_context := Some (format_context T (get_or (conversation_history st) []))\<rparr>,
      [])"

subsection \<open>Response generation\<close>

definition prompt_mapping :: "(string \<times> string) list" where
  "prompt_mapping =
     [(''support_A'', SUPPORT_RESPONSE_PROMPT_A),
      (''support_B'', SUPPORT_RESPONSE_PROMPT_B),
      (''sales_A'', SALES_RESPONSE_PROMPT_A),
      (''sales_B'', SALES_RESPONSE_PROMPT_B),
      (''general_A'', GENERAL_RESPONSE_PROMPT_A),
      (''general_B'', GENERAL_RESPONSE_PROMPT_B)]"

definition get_prompt_for_intent :: "tools \<Rightarrow> string \<Rightarrow> string \<Rightarrow> string" where
  "get_prompt_for_intent T intent_name variant =
     (let key = select_prompt_variant T intent_name variant
      in get_or (map_of prompt_mapping key) GENERAL_RESPONSE_PROMPT_A)"

definition language_hint :: "string \<Rightarrow> string" where
  "language_hint lang =
     ''You MUST answer in language code '' @ [CHR 0x27] @ lang @ [CHR 0x27] @
     ''.\<newline>\<newline>''"

definition wrap_prompt_with_language_hint :: "string \<Rightarrow> string \<Rightarrow> string" where
  "wrap_prompt_with_language_hint base_prompt lang =
     (if lang = '''' \<or> lang = ''en'' then base_prompt
      else language_hint lang @ base_prompt)"

definition mock_response :: "string \<Rightarrow> string" where
  "mock_response intent_name = get_or (map_of MOCK_RESPONSES intent_name) MOCK_GENERAL"

definition generate_response ::
  "tools \<Rightarrow> settings \<Rightarrow> llm option \<Rightarrow> 'a agent_state_scheme
     \<Rightarrow> 'a agent_state_scheme \<times> event list" where
  "generate_response T cfg llm_client st =
     (let intent_name = get_or (intent st) ''general'';
          msg = get_or (message st) '''';
          context = get_or (formatted_context st) '''';
          lang = get_or (language st) (agent_default_language cfg);
          variant = get_or (prompt_variant st) (str_upper (agent_prompt_variant cfg));
          sentiment = get_or (sentiment_score st) 0
      in if intent_name = ''urgent'' \<or> truthy (requires_escalation st) then
           (st\<lparr>response := Some ESCALATION_MESSAGE, requires_escalation := Some True\<rparr>, [])
         else
           (let base_prompt_template = get_prompt_for_intent T intent_name variant;
                prompt_template = wrap_prompt_with_language_hint base_prompt_template lang;
                (final_text, evs) =
                  (case llm_client of
                     Some p \<Rightarrow>
                       (case p prompt_template msg context of
                          Inr content \<Rightarrow> (content, [Invoke prompt_template msg context])
                        | Inl e \<Rightarrow>
                            (mock_response intent_name,
                             [Invoke prompt_template msg context]))
                   | None \<Rightarrow> (mock_response intent_name, []))
            in (st\<lparr>response := Some (adjust_response_for_sentiment T final_text sentiment)\<rparr>,
                evs)))"

subsection \<open>Escalation check\<close>

definition check_escalation ::
  "tools \<Rightarrow> 'a agent_state_scheme \<Rightarrow> 'a agent_state_scheme \<times> event list" where
  "check_escalation T st =
     (let intent_name = get_or (intent st) '''';
          msg = get_or (message st) ''''
      in if intent_name = ''urgent'' then
           (st\<lparr>requires_escalation := Some True,
               escalation_reason := Some ''Urgent issue requiring immediate human attention'',
               sentiment_score := Some (extract_sentiment_indicators T msg)\<rparr>, [])
         else
           (let sentiment = extract_sentiment_indicators T msg;
                st1 = st\<lparr>sentiment_score := Some sentiment\<rparr>
            in if sentiment \<le> - 0.6 then
                 (st1\<lparr>requires_escalation := Some True,
                      escalation_reason := Some ''Highly negative sentiment detected''\<rparr>, [])
               else
                 (st1\<lparr>requires_escalation := Some (get_or (requires_escalation st1) False)\<rparr>,
                  [])))"

subsection \<open>Response validation\<close>

definition handoff_message :: string where
  "handoff_message =
     ''I apologize, but I'm having trouble generating a response. Let me connect you with a human agent.''"

definition is_valid_response :: "string \<Rightarrow> bool" where
  "is_valid_response r = (length r > 10 \<and> length r < 1000 \<and> str_strip r \<noteq> '''')"

definition validate_response :: "'a agent_state_scheme \<Rightarrow> 'a agent_state_scheme \<times> event list" where
  "validate_response st =
     (let r = get_or (response st) '''';
          is_valid = is_valid_response r;
          st1 = st\<lparr>response_valid := Some is_valid\<rparr>
      in if \<not> is_valid then
           (st1\<lparr>response := Some handoff_message, requires_escalation := Some True\<rparr>, [])
         else (st1, []))"

section \<open>The orchestrator and the helper module, from their description\<close>

text \<open>
  Modelled from the spec: the orchestrator that wires the nodes together is not part of the
  sources at hand. Section 4.6 of the specification gives the order of the stages as
  Received, Classified, ContextReady, Generated, EscalationChecked, Validated, Done, strictly
  sequential, every stage run exactly once on the state the previous one returned. The
  stages themselves are the functions of nodes.py above.
\<close>

definition run_pipeline ::
  "tools \<Rightarrow> settings \<Rightarrow> llm option \<Rightarrow> 'a agent_state_scheme
     \<Rightarrow> 'a agent_state_scheme \<times> event list" where
  "run_pipeline T cfg llm_client st =
     (let (s1, e1) = classify_message T cfg llm_client st;
          (s2, e2) = retrieve_context T s1;
          (s3, e3) = generate_response T cfg llm_client s2;
          (s4, e4) = check_escalation T s3;
          (s5, e5) = validate_response s4
      in (s5, e1 @ e2 @ e3 @ e4 @ e5))"

text \<open>
  Modelled from the spec: \<open>detect_urgency\<close> of app/agent/tools.py, which is missing.
  Section 4.1: true if the text contains any urgency lexical marker of a configurable set
  of keywords and phrases (anger words, mentions of legal action or of payment failure,
  multiple consecutive exclamation marks); pure, deterministic, case-insensitive. The set
  of markers is the first argument.
\<close>

definition spec_detect_urgency :: "string list \<Rightarrow> string \<Rightarrow> bool" where
  "spec_detect_urgency markers text_in =
     list_ex (\<lambda>marker. str_contains marker (str_lower text_in)) markers"

text \<open>
  Modelled from the spec: \<open>extract_sentiment_indicators\<close> of app/agent/tools.py, which is
  missing. Section 4.1: lexicon-based scoring, the sum of the signed weights of the matched
  positive and negative terms, clamped at -1.0 and 1.0; text with no match scores 0.0. The
  lexicon (term, weight) is the first argument.
\<close>

definition spec_extract_sentiment :: "(string \<times> real) list \<Rightarrow> string \<Rightarrow> real" where
  "spec_extract_sentiment lexicon text_in =
     max (- 1) (min 1
       (sum_list (map snd (filter (\<lambda>(term_in, w). str_contains term_in (str_lower text_in))
                                  lexicon))))"

text \<open>
  Modelled from the spec: \<open>format_context\<close> of app/agent/tools.py, which is missing.
  Sections 2 and 8: renders the history as a block of text, and the empty history as a fixed
  sentinel string. The sentinel and the shape of a line (the sender in capitals, a colon,
  the content) are the ones the unit test of \<open>format_context\<close> expects.
\<close>

fun join_lines :: "string list \<Rightarrow> string" where
  "join_lines [] = ''''"
| "join_lines [l] = l"
| "join_lines (l # ls) = l @ [CHR 0x0A] @ join_lines ls"

definition spec_format_context :: "history_entry list \<Rightarrow> string" where
  "spec_format_context history =
     (if history = [] then ''No previous context.''
      else join_lines (map (\<lambda>(sender, content). str_upper sender @ '': '' @ content) history))"

text \<open>
  Modelled from the spec: \<open>detect_language\<close> of app/agent/tools.py, which is missing.
  Section 4.1: a heuristic detection that falls back to a configured default when its
  confidence is low. The heuristic (with \<open>None\<close> for low confidence) and the default are
  arguments.
\<close>

definition spec_detect_language :: "(string \<Rightarrow> string option) \<Rightarrow> string \<Rightarrow> string \<Rightarrow> string" where
  "spec_detect_language heuristic default_lang text_in = get_or (heuristic text_in) default_lang"

text \<open>
  Modelled from the spec: \<open>select_prompt_variant\<close> of app/agent/tools.py, which is missing.
  Section 4.4: composes the intent, an underscore and the variant letter; unknown
  combinations fall back to \<open>general_A\<close>.
\<close>

definition spec_select_prompt_variant :: "string \<Rightarrow> string \<Rightarrow> string" where
  "spec_select_prompt_variant intent_name variant =
     (if intent_name \<in> set [''support'', ''sales'', ''general''] \<and> variant \<in> set [''A'', ''B'']
      then intent_name @ ''_'' @ variant
      else ''general_A'')"

text \<open>
  Modelled from the spec: \<open>adjust_response_for_sentiment\<close> of app/agent/tools.py, which is
  missing. Section 4.4: for strongly negative sentiment an empathetic acknowledgement is
  prepended to the text; otherwise the text is returned unchanged. The bound below which
  sentiment counts as strongly negative and the acknowledgement are arguments.
\<close>

definition spec_adjust_response_for_sentiment ::
  "real \<Rightarrow> string \<Rightarrow> string \<Rightarrow> real \<Rightarrow> string" where
  "spec_adjust_response_for_sentiment bound acknowledgement text_in sentiment =
     (if sentiment \<le> bound then acknowledgement @ text_in else text_in)"

text \<open>
  Modelled from the spec: one instance of the helper module, used to run the nodes on
  concrete inputs. The urgency markers are the words that the classification prompt lists
  as signs of urgency, with two exclamation marks in a row; the lexicon holds words of the
  unit tests of the sentiment score.
\<close>

definition spec_tools :: tools where
  "spec_tools =
     \<lparr>detect_urgency =
        spec_detect_urgency [''ridiculous'', ''unacceptable'', ''immediately'', ''asap'', ''!!''],
      extract_sentiment_indicators =
        spec_extract_sentiment
          [(''thank'', 1 / 2), (''great'', 1 / 2), (''terrible'', - 1 / 2),
           (''unacceptable'', - 1 / 2)],
      format_context = spec_format_context,
      detect_language = spec_detect_language (\<lambda>text_in. None) ''en'',
      select_prompt_variant = spec_select_prompt_variant,
      adjust_response_for_sentiment =
        spec_adjust_response_for_sentiment (- 0.6) ''I'm sorry for the trouble. ''\<rparr>"

section \<open>Basic facts\<close>

lemma get_or_simps: "get_or None d = d" "get_or (Some x) d = x"
  by (simp_all add: get_or_def)

lemma truthy_simps: "truthy None = False" "truthy (Some b) = b"
  by (simp_all add: truthy_def)

section \<open>Classification: the urgency short-circuit\<close>

lemma classify_message_urgent:
  "detect_urgency T (get_or (message st) '''') \<Longrightarrow>
   classify_message T cfg llm_client st =
     (st\<lparr>language := Some (if agent_auto_detect_language cfg
                              then detect_language T (get_or (message st) '''')
                              else agent_default_language cfg),
         prompt_variant := Some (str_upper (agent_prompt_variant cfg)),
         intent := Some ''urgent'', requires_escalation := Some True\<rparr>, [])"
  by (simp add: classify_message_def Let_def)

lemma classify_try_shape:
  "classify_try p msg context st = (Inr st2, evs) \<Longrightarrow>
   \<exists>i cr. st2 = st\<lparr>intent := Some i, classification_reason := cr\<rparr>"
proof -
  assume a: "classify_try p msg context st = (Inr st2, evs)"
  have id: "\<And>i. st\<lparr>intent := Some i\<rparr> = st\<lparr>intent := Some i, classification_reason := classification_reason st\<rparr>"
    by simp
  from a show ?thesis
    unfolding classify_try_def
    by (auto split: sum.splits if_splits intro: id)
qed

lemma classify_message_shape:
  "\<exists>l v i cr re. fst (classify_message T cfg llm_client st) =
      st\<lparr>language := l, prompt_variant := v, intent := Some i, classification_reason := cr,
         requires_escalation := re\<rparr>
    \<and> (re = requires_escalation st \<or> re = Some True)"
proof (cases "detect_urgency T (get_or (message st) '''')")
  case True
  show ?thesis
    apply (subst classify_message_urgent [OF True])
    apply (rule exI [of _ "Some (if agent_auto_detect_language cfg
                              then detect_language T (get_or (message st) '''')
                              else agent_default_language cfg)"])
    apply (rule exI [of _ "Some (str_upper (agent_prompt_variant cfg))"])
    apply (rule exI [of _ "''urgent''"])
    apply (rule exI [of _ "classification_reason st"])
    apply (rule exI [of _ "Some True"])
    apply simp
    done
next
  case False
  let ?l = "Some (if agent_auto_detect_language cfg
                              then detect_language T (get_or (message st) '''')
                              else agent_default_language cfg)"
  let ?v = "Some (str_upper (agent_prompt_variant cfg))"
  let ?st1 = "st\<lparr>language := ?l, prompt_variant := ?v\<rparr>"
  let ?msg = "get_or (message st) ''''"
  let ?ctx = "format_context T (get_or (conversation_history st) [])"
  show ?thesis
  proof (cases llm_client)
    case None
    have "fst (classify_message T cfg llm_client st) = ?st1\<lparr>intent := Some (rule_based_classification ?msg)\<rparr>"
      using False None by (simp add: classify_message_def Let_def)
    then have "fst (classify_message T cfg llm_client st) =
      st\<lparr>language := ?l, prompt_variant := ?v, intent := Some (rule_based_classification ?msg),
         classification_reason := classification_reason st,
         requires_escalation := requires_escalation st\<rparr>" by simp
    then show ?thesis by blast
  next
    case (Some p)
    obtain r evs where r: "classify_try p ?msg ?ctx ?st1 = (r, evs)" by (cases "classify_try p ?msg ?ctx ?st1")
    show ?thesis
    proof (cases r)
      case (Inl e)
      have "fst (classify_message T cfg llm_client st) = ?st1\<lparr>intent := Some (rule_based_classification ?msg)\<rparr>"
        using False Some r Inl by (simp add: classify_message_def Let_def)
      then have "fst (classify_message T cfg llm_client st) =
        st\<lparr>language := ?l, prompt_variant := ?v, intent := Some (rule_based_classification ?msg),
         classification_reason := classification_reason st,
         requires_escalation := requires_escalation st\<rparr>" by simp
      then show ?thesis by blast
    next
      case (Inr st2)
      then obtain i cr where st2: "st2 = ?st1\<lparr>intent := Some i, classification_reason := cr\<rparr>"
        using classify_try_shape r by blast
      have "fst (classify_message T cfg llm_client st) = st2"
        using False Some r Inr by (simp add: classify_message_def Let_def)
      then have "fst (classify_message T cfg llm_client st) =
        st\<lparr>language := ?l, prompt_variant := ?v, intent := Some i,
         classification_reason := cr,
         requires_escalation := requires_escalation st\<rparr>" using st2 by simp
      then show ?thesis by blast
    qed
  qed
qed

text \<open>
  C1. For every message that \<open>detect_urgency\<close> flags, \<open>classify_message\<close> sets the intent
  to \<open>urgent\<close> and \<open>requires_escalation\<close> to true and returns with no call of the provider
  and no call of the rule-based classifier (the list of events is empty); the result is the
  same whether a provider is configured or not.
\<close>

theorem classify_message_urgent_short_circuit:
  "detect_urgency T (get_or (message st) '''') \<Longrightarrow>
     intent (fst (classify_message T cfg llm_client st)) = Some ''urgent''
   \<and> requires_escalation (fst (classify_message T cfg llm_client st)) = Some True
   \<and> snd (classify_message T cfg llm_client st) = []
   \<and> classify_message T cfg llm_client st = classify_message T cfg None st"
  by (simp add: classify_message_urgent)

theorem classify_message_urgent_short_circuit_witness:
  "detect_urgency spec_tools ''This is ridiculous!!! I've been charged twice!''
   \<and> intent (fst (classify_message spec_tools default_settings
         (Some (\<lambda>template msg context. Inr ''CLASSIFICATION: SALES''))
         (empty_state\<lparr>message := Some ''This is ridiculous!!! I've been charged twice!''\<rparr>)))
       = Some ''urgent''
   \<and> requires_escalation (fst (classify_message spec_tools default_settings
         (Some (\<lambda>template msg context. Inr ''CLASSIFICATION: SALES''))
         (empty_state\<lparr>message := Some ''This is ridiculous!!! I've been charged twice!''\<rparr>)))
       = Some True
   \<and> snd (classify_message spec_tools default_settings
         (Some (\<lambda>template msg context. Inr ''CLASSIFICATION: SALES''))
         (empty_state\<lparr>message := Some ''This is ridiculous!!! I've been charged twice!''\<rparr>))
       = []"
proof -
  have u: "detect_urgency spec_tools ''This is ridiculous!!! I've been charged twice!''"
    by code_simp
  have h: "detect_urgency spec_tools (get_or (message
         (empty_state\<lparr>message := Some ''This is ridiculous!!! I've been charged twice!''\<rparr>)) '''')"
    using u by (simp add: get_or_def)
  show ?thesis
    using u classify_message_urgent_short_circuit [OF h] by simp
qed

section \<open>The escalation flag never goes back\<close>

text \<open>
  C2. If \<open>requires_escalation\<close> is true before a stage runs, it is true after it: this holds
  for each of \<open>classify_message\<close>, \<open>retrieve_context\<close>, \<open>generate_response\<close>,
  \<open>check_escalation\<close> and \<open>validate_response\<close>, on every state.
\<close>

theorem requires_escalation_monotone:
  "requires_escalation st = Some True \<Longrightarrow>
     requires_escalation (fst (classify_message T cfg llm_client st)) = Some True
   \<and> requires_escalation (fst (retrieve_context T st)) = Some True
   \<and> requires_escalation (fst (generate_response T cfg llm_client st)) = Some True
   \<and> requires_escalation (fst (check_escalation T st)) = Some True
   \<and> requires_escalation (fst (validate_response st)) = Some True"
proof -
  assume t: "requires_escalation st = Some True"
  obtain l v i cr re where
    "fst (classify_message T cfg llm_client st) =
      st\<lparr>language := l, prompt_variant := v, intent := Some i, classification_reason := cr,
         requires_escalation := re\<rparr>" and "re = requires_escalation st \<or> re = Some True"
    using classify_message_shape [of T cfg llm_client st] by blast
  then have c: "requires_escalation (fst (classify_message T cfg llm_client st)) = Some True"
    using t by auto
  have r: "requires_escalation (fst (retrieve_context T st)) = Some True"
    using t by (simp add: retrieve_context_def)
  have g: "requires_escalation (fst (generate_response T cfg llm_client st)) = Some True"
    using t by (simp add: generate_response_def Let_def truthy_def)
  have e: "requires_escalation (fst (check_escalation T st)) = Some True"
    using t by (simp add: check_escalation_def Let_def get_or_def)
  have v: "requires_escalation (fst (validate_response st)) = Some True"
    using t by (simp add: validate_response_def Let_def)
  from c r g e v show ?thesis by simp
qed

theorem requires_escalation_monotone_witness:
  "requires_escalation (empty_state\<lparr>requires_escalation := Some True\<rparr>) = Some True
   \<and> requires_escalation (fst (classify_message spec_tools default_settings None
         (empty_state\<lparr>requires_escalation := Some True\<rparr>))) = Some True
   \<and> requires_escalation (fst (retrieve_context spec_tools
         (empty_state\<lparr>requires_escalation := Some True\<rparr>))) = Some True
   \<and> requires_escalation (fst (generate_response spec_tools default_settings None
         (empty_state\<lparr>requires_escalation := Some True\<rparr>))) = Some True
   \<and> requires_escalation (fst (check_escalation spec_tools
         (empty_state\<lparr>requires_escalation := Some True\<rparr>))) = Some True
   \<and> requires_escalation (fst (validate_response
         (empty_state\<lparr>requires_escalation := Some True\<rparr>))) = Some True"
proof -
  have h: "requires_escalation (empty_state\<lparr>requires_escalation := Some True\<rparr>) = Some True"
    by simp
  show ?thesis
    using h requires_escalation_monotone
            [OF h, where T = spec_tools and cfg = default_settings and llm_client = None]
    by simp
qed


section \<open>Response validation\<close>

lemma str_strip_empty_iff: "str_strip s = [] \<longleftrightarrow> (\<forall>c\<in>set s. is_space c)"
proof
  assume "str_strip s = []"
  then have "dropWhile is_space (rev (dropWhile is_space s)) = []"
    by (simp add: str_strip_def)
  then have all: "\<forall>c\<in>set (dropWhile is_space s). is_space c"
    by (simp add: dropWhile_eq_Nil_conv)
  show "\<forall>c\<in>set s. is_space c"
  proof (cases "dropWhile is_space s")
    case Nil
    then show ?thesis by (simp add: dropWhile_eq_Nil_conv)
  next
    case (Cons c cs)
    then have "\<not> is_space c" using hd_dropWhile [of is_space s] by simp
    moreover have "is_space c" using all Cons by simp
    ultimately show ?thesis by simp
  qed
next
  assume "\<forall>c\<in>set s. is_space c"
  then have h: "dropWhile is_space s = []" by (simp add: dropWhile_eq_Nil_conv)
  show "str_strip s = []" unfolding str_strip_def h by simp
qed

lemma validate_response_valid_field:
  "response_valid (fst (validate_response st)) = Some (is_valid_response (get_or (response st) ''''))"
  by (simp add: validate_response_def Let_def)

lemma validate_response_rejected:
  "\<not> is_valid_response (get_or (response st) '''') \<Longrightarrow>
   fst (validate_response st) =
     st\<lparr>response_valid := Some False, response := Some handoff_message,
        requires_escalation := Some True\<rparr>"
  by (simp add: validate_response_def Let_def)

lemma validate_response_accepted:
  "is_valid_response (get_or (response st) '''') \<Longrightarrow>
   fst (validate_response st) = st\<lparr>response_valid := Some True\<rparr>"
  by (simp add: validate_response_def Let_def)

lemma handoff_message_valid: "is_valid_response handoff_message"
  by code_simp

text \<open>
  C5. \<open>validate_response\<close> sets \<open>response_valid\<close> to true exactly when the response is
  longer than 10 and shorter than 1000 characters and its stripped text is not empty, that
  is, when it holds a character that is not whitespace. A response of 10 characters is
  rejected; one of 11 characters that is not all whitespace is accepted. Whenever
  \<open>response_valid\<close> is false, the response has been replaced by the fixed hand-off message
  and \<open>requires_escalation\<close> is true.
\<close>

theorem validate_response_acceptance:
  "response_valid (fst (validate_response st)) =
     Some (10 < length (get_or (response st) '''') \<and> length (get_or (response st) '''') < 1000
           \<and> str_strip (get_or (response st) '''') \<noteq> '''')
   \<and> (str_strip (get_or (response st) '''') \<noteq> '''' \<longleftrightarrow>
        (\<exists>c\<in>set (get_or (response st) ''''). \<not> is_space c))
   \<and> (response_valid (fst (validate_response st)) = Some False \<longrightarrow>
        response (fst (validate_response st)) = Some handoff_message
        \<and> requires_escalation (fst (validate_response st)) = Some True)
   \<and> (length (get_or (response st) '''') = 10 \<longrightarrow>
        response_valid (fst (validate_response st)) = Some False)
   \<and> (length (get_or (response st) '''') = 11
        \<and> (\<exists>c\<in>set (get_or (response st) ''''). \<not> is_space c) \<longrightarrow>
        response_valid (fst (validate_response st)) = Some True)"
proof -
  let ?r = "get_or (response st) ''''"
  have v: "response_valid (fst (validate_response st)) = Some (is_valid_response ?r)"
    by (rule validate_response_valid_field)
  have s: "str_strip ?r \<noteq> '''' \<longleftrightarrow> (\<exists>c\<in>set ?r. \<not> is_space c)"
    by (simp add: str_strip_empty_iff)
  have rej: "response_valid (fst (validate_response st)) = Some False \<longrightarrow>
        response (fst (validate_response st)) = Some handoff_message
        \<and> requires_escalation (fst (validate_response st)) = Some True"
    using v validate_response_rejected [of st] by simp
  show ?thesis
    using v s rej by (simp add: is_valid_response_def)
qed

theorem validate_response_acceptance_witness:
  "response_valid (fst (validate_response (empty_state\<lparr>response := Some ''0123456789''\<rparr>))) = Some False
   \<and> response (fst (validate_response (empty_state\<lparr>response := Some ''0123456789''\<rparr>)))
       = Some handoff_message
   \<and> requires_escalation (fst (validate_response (empty_state\<lparr>response := Some ''0123456789''\<rparr>)))
       = Some True
   \<and> response_valid (fst (validate_response (empty_state\<lparr>response := Some ''0123456789a''\<rparr>)))
       = Some True"
  using validate_response_acceptance [of "empty_state\<lparr>response := Some ''0123456789''\<rparr>"]
        validate_response_acceptance [of "empty_state\<lparr>response := Some ''0123456789a''\<rparr>"]
  by (simp add: get_or_simps is_space_def whitespace_chars_def)

text \<open>
  C10. After a rejection, the hand-off message that \<open>validate_response\<close> has stored passes
  the acceptance rule itself, so a second application accepts it and leaves the response as
  it is.
\<close>

theorem validate_response_fixpoint:
  "response_valid (fst (validate_response st)) = Some False \<longrightarrow>
     response (fst (validate_response st)) = Some handoff_message
     \<and> 10 < length handoff_message \<and> length handoff_message < 1000
     \<and> str_strip handoff_message \<noteq> ''''
     \<and> response_valid (fst (validate_response (fst (validate_response st)))) = Some True
     \<and> response (fst (validate_response (fst (validate_response st))))
         = response (fst (validate_response st))"
proof
  assume f: "response_valid (fst (validate_response st)) = Some False"
  let ?s1 = "fst (validate_response st)"
  have nv: "\<not> is_valid_response (get_or (response st) '''')"
    using f validate_response_valid_field [of st] by simp
  have s1: "?s1 = st\<lparr>response_valid := Some False, response := Some handoff_message,
        requires_escalation := Some True\<rparr>"
    using nv by (rule validate_response_rejected)
  have r1: "response ?s1 = Some handoff_message" by (simp add: s1)
  have "is_valid_response (get_or (response ?s1) '''')"
    by (simp add: r1 get_or_simps handoff_message_valid)
  then have s2: "fst (validate_response ?s1) = ?s1\<lparr>response_valid := Some True\<rparr>"
    by (rule validate_response_accepted)
  have "response_valid (fst (validate_response ?s1)) = Some True" 
    by (subst s2) simp
  moreover have "response (fst (validate_response ?s1)) = response ?s1"
    by (subst s2) simp
  ultimately show "response ?s1 = Some handoff_message
     \<and> 10 < length handoff_message \<and> length handoff_message < 1000
     \<and> str_strip handoff_message \<noteq> ''''
     \<and> response_valid (fst (validate_response ?s1)) = Some True
     \<and> response (fst (validate_response ?s1)) = response ?s1"
    using r1 handoff_message_valid by (simp add: is_valid_response_def)
qed

theorem validate_response_fixpoint_witness:
  "response_valid (fst (validate_response (empty_state\<lparr>response := Some ''Hi''\<rparr>))) = Some False
   \<and> response_valid (fst (validate_response (fst (validate_response
        (empty_state\<lparr>response := Some ''Hi''\<rparr>))))) = Some True
   \<and> response (fst (validate_response (fst (validate_response
        (empty_state\<lparr>response := Some ''Hi''\<rparr>))))) = Some handoff_message"
proof -
  have f: "response_valid (fst (validate_response (empty_state\<lparr>response := Some ''Hi''\<rparr>))) = Some False"
    by (simp add: validate_response_valid_field get_or_simps is_valid_response_def)
  show ?thesis
    using f validate_response_fixpoint [of "empty_state\<lparr>response := Some ''Hi''\<rparr>"] by simp
qed

section \<open>The escalation check\<close>

lemma check_escalation_urgent:
  "get_or (intent st) '''' = ''urgent'' \<Longrightarrow>
   check_escalation T st =
     (st\<lparr>requires_escalation := Some True,
         escalation_reason := Some ''Urgent issue requiring immediate human attention'',
         sentiment_score := Some (extract_sentiment_indicators T (get_or (message st) ''''))\<rparr>,
      [])"
  by (simp add: check_escalation_def Let_def)

lemma check_escalation_negative:
  "get_or (intent st) '''' \<noteq> ''urgent'' \<Longrightarrow>
   extract_sentiment_indicators T (get_or (message st) '''') \<le> - 0.6 \<Longrightarrow>
   check_escalation T st =
     (st\<lparr>requires_escalation := Some True,
         escalation_reason := Some ''Highly negative sentiment detected'',
         sentiment_score := Some (extract_sentiment_indicators T (get_or (message st) ''''))\<rparr>,
      [])"
  by (simp add: check_escalation_def Let_def)

lemma check_escalation_otherwise:
  "get_or (intent st) '''' \<noteq> ''urgent'' \<Longrightarrow>
   \<not> extract_sentiment_indicators T (get_or (message st) '''') \<le> - 0.6 \<Longrightarrow>
   check_escalation T st =
     (st\<lparr>requires_escalation := Some (get_or (requires_escalation st) False),
         escalation_reason := escalation_reason st,
         sentiment_score := Some (extract_sentiment_indicators T (get_or (message st) ''''))\<rparr>,
      [])"
  by (simp add: check_escalation_def Let_def)

text \<open>
  C3, as stated, gives the two reasons as \<open>urgent issue requiring immediate attention\<close> and
  \<open>highly negative sentiment detected\<close>. The strings that \<open>check_escalation\<close> stores are
  different ones: on an urgent state, and on a state whose message scores -1, the stored
  reason is not the string of the claim.
\<close>

theorem check_escalation_reason_counterexample:
  "escalation_reason (fst (check_escalation spec_tools
      (empty_state\<lparr>message := Some ''This is terrible!'', intent := Some ''urgent''\<rparr>)))
     \<noteq> Some ''urgent issue requiring immediate attention''
   \<and> extract_sentiment_indicators spec_tools ''This is terrible and unacceptable!'' \<le> - 0.6
   \<and> escalation_reason (fst (check_escalation spec_tools
      (empty_state\<lparr>message := Some ''This is terrible and unacceptable!'',
                   intent := Some ''support''\<rparr>)))
     \<noteq> Some ''highly negative sentiment detected''"
proof -
  have s: "extract_sentiment_indicators spec_tools ''This is terrible and unacceptable!'' = - 1"
    by code_simp
  have a: "escalation_reason (fst (check_escalation spec_tools
      (empty_state\<lparr>message := Some ''This is terrible!'', intent := Some ''urgent''\<rparr>)))
     = Some ''Urgent issue requiring immediate human attention''"
    by (simp add: check_escalation_urgent get_or_simps)
  have b: "escalation_reason (fst (check_escalation spec_tools
      (empty_state\<lparr>message := Some ''This is terrible and unacceptable!'',
                   intent := Some ''support''\<rparr>)))
     = Some ''Highly negative sentiment detected''"
    by (simp add: check_escalation_negative get_or_simps s)
  show ?thesis unfolding a b s by simp
qed

text \<open>
  C3, amended. \<open>check_escalation\<close>, in order: if the intent is \<open>urgent\<close>, it sets
  \<open>requires_escalation\<close> to true with the reason
  \<open>Urgent issue requiring immediate human attention\<close> and still stores the sentiment score
  of the message; otherwise it stores the sentiment score, and if the score is at most -0.6
  it sets \<open>requires_escalation\<close> to true with the reason
  \<open>Highly negative sentiment detected\<close>; otherwise it keeps the flag (false when absent) and
  the reason. The new state differs from the old one in \<open>requires_escalation\<close>,
  \<open>escalation_reason\<close> and \<open>sentiment_score\<close> at most, and nothing is called.
\<close>

theorem check_escalation_rules:
  "(get_or (intent st) '''' = ''urgent'' \<longrightarrow>
      requires_escalation (fst (check_escalation T st)) = Some True
      \<and> escalation_reason (fst (check_escalation T st))
          = Some ''Urgent issue requiring immediate human attention''
      \<and> sentiment_score (fst (check_escalation T st))
          = Some (extract_sentiment_indicators T (get_or (message st) '''')))
   \<and> (get_or (intent st) '''' \<noteq> ''urgent'' \<longrightarrow>
      sentiment_score (fst (check_escalation T st))
          = Some (extract_sentiment_indicators T (get_or (message st) ''''))
      \<and> (extract_sentiment_indicators T (get_or (message st) '''') \<le> - 0.6 \<longrightarrow>
          requires_escalation (fst (check_escalation T st)) = Some True
          \<and> escalation_reason (fst (check_escalation T st))
              = Some ''Highly negative sentiment detected'')
      \<and> (\<not> extract_sentiment_indicators T (get_or (message st) '''') \<le> - 0.6 \<longrightarrow>
          requires_escalation (fst (check_escalation T st))
              = Some (get_or (requires_escalation st) False)
          \<and> escalation_reason (fst (check_escalation T st)) = escalation_reason st))
   \<and> (\<exists>flag reason score.
        fst (check_escalation T st) =
          st\<lparr>requires_escalation := flag, escalation_reason := reason,
             sentiment_score := score\<rparr>)
   \<and> snd (check_escalation T st) = []"
proof -
  let ?s = "extract_sentiment_indicators T (get_or (message st) '''')"
  have frame: "\<exists>flag reason score.
        fst (check_escalation T st) =
          st\<lparr>requires_escalation := flag, escalation_reason := reason,
             sentiment_score := score\<rparr>"
  proof (cases "get_or (intent st) '''' = ''urgent''")
    case True
    show ?thesis unfolding check_escalation_urgent [OF True] fst_conv by blast
  next
    case nu: False
    show ?thesis
    proof (cases "?s \<le> - 0.6")
      case True
      show ?thesis unfolding check_escalation_negative [OF nu True] fst_conv by blast
    next
      case False
      show ?thesis unfolding check_escalation_otherwise [OF nu False] fst_conv by blast
    qed
  qed
  have urgent: "get_or (intent st) '''' = ''urgent'' \<longrightarrow>
      requires_escalation (fst (check_escalation T st)) = Some True
      \<and> escalation_reason (fst (check_escalation T st))
          = Some ''Urgent issue requiring immediate human attention''
      \<and> sentiment_score (fst (check_escalation T st)) = Some ?s"
    by (simp add: check_escalation_urgent)
  have other: "get_or (intent st) '''' \<noteq> ''urgent'' \<longrightarrow>
      sentiment_score (fst (check_escalation T st)) = Some ?s
      \<and> (?s \<le> - 0.6 \<longrightarrow>
          requires_escalation (fst (check_escalation T st)) = Some True
          \<and> escalation_reason (fst (check_escalation T st))
              = Some ''Highly negative sentiment detected'')
      \<and> (\<not> ?s \<le> - 0.6 \<longrightarrow>
          requires_escalation (fst (check_escalation T st))
              = Some (get_or (requires_escalation st) False)
          \<and> escalation_reason (fst (check_escalation T st)) = escalation_reason st)"
    by (cases "?s \<le> - 0.6")
       (simp_all add: check_escalation_negative check_escalation_otherwise)
  have events: "snd (check_escalation T st) = []"
    by (simp add: check_escalation_def Let_def)
  from urgent other frame events show ?thesis by blast
qed

theorem check_escalation_rules_witness:
  "requires_escalation (fst (check_escalation spec_tools
      (empty_state\<lparr>message := Some ''This is terrible!'', intent := Some ''urgent''\<rparr>)))
     = Some True
   \<and> escalation_reason (fst (check_escalation spec_tools
      (empty_state\<lparr>message := Some ''This is terrible!'', intent := Some ''urgent''\<rparr>)))
     = Some ''Urgent issue requiring immediate human attention''
   \<and> sentiment_score (fst (check_escalation spec_tools
      (empty_state\<lparr>message := Some ''This is terrible!'', intent := Some ''urgent''\<rparr>)))
     = Some (- 1 / 2)
   \<and> requires_escalation (fst (check_escalation spec_tools
      (empty_state\<lparr>message := Some ''This is terrible and unacceptable!'',
                   intent := Some ''support''\<rparr>)))
     = Some True
   \<and> escalation_reason (fst (check_escalation spec_tools
      (empty_state\<lparr>message := Some ''This is terrible and unacceptable!'',
                   intent := Some ''support''\<rparr>)))
     = Some ''Highly negative sentiment detected''
   \<and> requires_escalation (fst (check_escalation spec_tools
      (empty_state\<lparr>message := Some ''I have a question'', intent := Some ''general''\<rparr>)))
     = Some False"
proof -
  have s1: "extract_sentiment_indicators spec_tools ''This is terrible!'' = - 1 / 2"
    by code_simp
  have s2: "extract_sentiment_indicators spec_tools ''This is terrible and unacceptable!'' = - 1"
    by code_simp
  have s3: "extract_sentiment_indicators spec_tools ''I have a question'' = 0"
    by code_simp
  show ?thesis
    using check_escalation_rules [of "empty_state\<lparr>message := Some ''This is terrible!'',
             intent := Some ''urgent''\<rparr>" spec_tools]
          check_escalation_rules [of "empty_state\<lparr>message := Some ''This is terrible and unacceptable!'',
             intent := Some ''support''\<rparr>" spec_tools]
          check_escalation_rules [of "empty_state\<lparr>message := Some ''I have a question'',
             intent := Some ''general''\<rparr>" spec_tools]
    by (simp add: get_or_simps s1 s2 s3 empty_state_def)
qed

section \<open>Where the escalation reason is written\<close>

lemma generate_response_reason:
  "escalation_reason (fst (generate_response T cfg llm_client st)) = escalation_reason st"
  by (simp add: generate_response_def Let_def split: option.splits sum.splits prod.splits)

text \<open>
  C7, as stated, fails: the rejection path of \<open>validate_response\<close> and the urgency
  short-circuit of \<open>classify_message\<close> both turn \<open>requires_escalation\<close> from false to true
  and leave \<open>escalation_reason\<close> absent.
\<close>

theorem escalation_reason_counterexample:
  "requires_escalation (empty_state\<lparr>response := Some ''Hi'', requires_escalation := Some False\<rparr>)
     = Some False
   \<and> requires_escalation (fst (validate_response
        (empty_state\<lparr>response := Some ''Hi'', requires_escalation := Some False\<rparr>))) = Some True
   \<and> escalation_reason (fst (validate_response
        (empty_state\<lparr>response := Some ''Hi'', requires_escalation := Some False\<rparr>))) = None
   \<and> requires_escalation (fst (classify_message spec_tools default_settings None
        (empty_state\<lparr>message := Some ''This is ridiculous!!! I've been charged twice!'',
                     requires_escalation := Some False\<rparr>))) = Some True
   \<and> escalation_reason (fst (classify_message spec_tools default_settings None
        (empty_state\<lparr>message := Some ''This is ridiculous!!! I've been charged twice!'',
                     requires_escalation := Some False\<rparr>))) = None"
proof -
  have nv: "\<not> is_valid_response (get_or (response
      (empty_state\<lparr>response := Some ''Hi'', requires_escalation := Some False\<rparr>)) '''')"
    by (simp add: get_or_simps is_valid_response_def)
  have u: "detect_urgency spec_tools (get_or (message
        (empty_state\<lparr>message := Some ''This is ridiculous!!! I've been charged twice!'',
                     requires_escalation := Some False\<rparr>)) '''')"
    by code_simp
  show ?thesis
    unfolding validate_response_rejected [OF nv] classify_message_urgent [OF u]
    by (simp add: empty_state_def)
qed

text \<open>
  C7, amended. When \<open>requires_escalation\<close> turns from false to true in \<open>check_escalation\<close>,
  that stage sets \<open>escalation_reason\<close> to one of its two fixed strings. The other stages,
  \<open>classify_message\<close>, \<open>retrieve_context\<close>, \<open>generate_response\<close> and \<open>validate_response\<close>,
  never write \<open>escalation_reason\<close>: it is after the stage what it was before, also when the
  stage has set the flag.
\<close>

theorem escalation_reason_written_by_check_escalation_only:
  "(\<not> truthy (requires_escalation st)
      \<and> truthy (requires_escalation (fst (check_escalation T st))) \<longrightarrow>
      escalation_reason (fst (check_escalation T st))
          = Some ''Urgent issue requiring immediate human attention''
      \<or> escalation_reason (fst (check_escalation T st))
          = Some ''Highly negative sentiment detected'')
   \<and> escalation_reason (fst (classify_message T cfg llm_client st)) = escalation_reason st
   \<and> escalation_reason (fst (retrieve_context T st)) = escalation_reason st
   \<and> escalation_reason (fst (generate_response T cfg llm_client st)) = escalation_reason st
   \<and> escalation_reason (fst (validate_response st)) = escalation_reason st"
proof -
  let ?s = "extract_sentiment_indicators T (get_or (message st) '''')"
  have chk: "\<not> truthy (requires_escalation st)
      \<and> truthy (requires_escalation (fst (check_escalation T st))) \<longrightarrow>
      escalation_reason (fst (check_escalation T st))
          = Some ''Urgent issue requiring immediate human attention''
      \<or> escalation_reason (fst (check_escalation T st))
          = Some ''Highly negative sentiment detected''"
  proof (cases "get_or (intent st) '''' = ''urgent''")
    case True
    then show ?thesis by (simp add: check_escalation_urgent)
  next
    case nu: False
    show ?thesis
    proof (cases "?s \<le> - 0.6")
      case True
      with nu show ?thesis by (simp add: check_escalation_negative)
    next
      case False
      have "requires_escalation (fst (check_escalation T st))
              = Some (get_or (requires_escalation st) False)"
        by (simp add: check_escalation_otherwise [OF nu False])
      then show ?thesis by (cases "requires_escalation st") (simp_all add: truthy_def get_or_def)
    qed
  qed
  obtain l v i cr re where
    "fst (classify_message T cfg llm_client st) =
      st\<lparr>language := l, prompt_variant := v, intent := Some i, classification_reason := cr,
         requires_escalation := re\<rparr>"
    using classify_message_shape [of T cfg llm_client st] by blast
  then have cls: "escalation_reason (fst (classify_message T cfg llm_client st)) = escalation_reason st"
    by simp
  have ret: "escalation_reason (fst (retrieve_context T st)) = escalation_reason st"
    by (simp add: retrieve_context_def)
  have gen: "escalation_reason (fst (generate_response T cfg llm_client st)) = escalation_reason st"
    by (rule generate_response_reason)
  have val: "escalation_reason (fst (validate_response st)) = escalation_reason st"
    by (simp add: validate_response_def Let_def)
  from chk cls ret gen val show ?thesis by blast
qed

theorem escalation_reason_written_by_check_escalation_only_witness:
  "\<not> truthy (requires_escalation
        (empty_state\<lparr>message := Some ''This is terrible!'', intent := Some ''urgent''\<rparr>))
   \<and> truthy (requires_escalation (fst (check_escalation spec_tools
        (empty_state\<lparr>message := Some ''This is terrible!'', intent := Some ''urgent''\<rparr>))))
   \<and> escalation_reason (fst (check_escalation spec_tools
        (empty_state\<lparr>message := Some ''This is terrible!'', intent := Some ''urgent''\<rparr>)))
       = Some ''Urgent issue requiring immediate human attention''
   \<and> escalation_reason (fst (validate_response
        (empty_state\<lparr>message := Some ''This is terrible!'', intent := Some ''urgent''\<rparr>)))
       = None"
proof -
  have a: "\<not> truthy (requires_escalation
        (empty_state\<lparr>message := Some ''This is terrible!'', intent := Some ''urgent''\<rparr>))"
    by (simp add: truthy_def empty_state_def)
  have b: "truthy (requires_escalation (fst (check_escalation spec_tools
        (empty_state\<lparr>message := Some ''This is terrible!'', intent := Some ''urgent''\<rparr>))))"
    by (simp add: check_escalation_urgent get_or_simps truthy_def)
  have c: "escalation_reason (fst (check_escalation spec_tools
        (empty_state\<lparr>message := Some ''This is terrible!'', intent := Some ''urgent''\<rparr>)))
       = Some ''Urgent issue requiring immediate human attention''"
    by (simp add: check_escalation_urgent get_or_simps)
  have d: "escalation_reason (fst (validate_response
        (empty_state\<lparr>message := Some ''This is terrible!'', intent := Some ''urgent''\<rparr>)))
       = escalation_reason
        (empty_state\<lparr>message := Some ''This is terrible!'', intent := Some ''urgent''\<rparr>)"
    using escalation_reason_written_by_check_escalation_only
            [of "empty_state\<lparr>message := Some ''This is terrible!'', intent := Some ''urgent''\<rparr>"
                spec_tools default_settings None]
    by blast
  have e: "escalation_reason
        (empty_state\<lparr>message := Some ''This is terrible!'', intent := Some ''urgent''\<rparr>) = None"
    by (simp add: empty_state_def)
  from a b c d e show ?thesis by simp
qed

section \<open>Response generation on the escalation path\<close>

lemma run_pipeline_fst:
  "fst (run_pipeline T cfg llm_client st) =
     fst (validate_response (fst (check_escalation T (fst (generate_response T cfg llm_client
       (fst (retrieve_context T (fst (classify_message T cfg llm_client st)))))))))"
  by (simp add: run_pipeline_def split: prod.splits)

lemma run_pipeline_snd:
  "snd (run_pipeline T cfg llm_client st) =
     snd (classify_message T cfg llm_client st)
     @ snd (generate_response T cfg llm_client
         (fst (retrieve_context T (fst (classify_message T cfg llm_client st)))))"
  by (simp add: run_pipeline_def retrieve_context_def check_escalation_def validate_response_def
        Let_def split: prod.splits)

lemma generate_response_escalated:
  "get_or (intent st) ''general'' = ''urgent'' \<or> truthy (requires_escalation st) \<Longrightarrow>
   generate_response T cfg llm_client st =
     (st\<lparr>response := Some ESCALATION_MESSAGE, requires_escalation := Some True\<rparr>, [])"
  by (simp add: generate_response_def Let_def)

lemma escalation_message_valid: "is_valid_response ESCALATION_MESSAGE"
  by code_simp

lemma validate_response_keeps_valid:
  "response st = Some r \<Longrightarrow> is_valid_response r \<Longrightarrow>
   fst (validate_response st) = st\<lparr>response_valid := Some True\<rparr>"
  by (simp add: validate_response_accepted get_or_simps)

lemma check_escalation_response:
  "response (fst (check_escalation T st)) = response st"
  by (simp add: check_escalation_def Let_def)

lemma check_escalation_intent:
  "intent (fst (check_escalation T st)) = intent st"
  by (simp add: check_escalation_def Let_def)

lemma run_pipeline_urgent:
  assumes u: "detect_urgency T (get_or (message st) '''')"
  shows "intent (fst (run_pipeline T cfg llm_client st)) = Some ''urgent''"
    and "requires_escalation (fst (run_pipeline T cfg llm_client st)) = Some True"
    and "response (fst (run_pipeline T cfg llm_client st)) = Some ESCALATION_MESSAGE"
    and "snd (run_pipeline T cfg llm_client st) = []"
proof -
  let ?s1 = "fst (classify_message T cfg llm_client st)"
  let ?s2 = "fst (retrieve_context T ?s1)"
  let ?s3 = "fst (generate_response T cfg llm_client ?s2)"
  let ?s4 = "fst (check_escalation T ?s3)"
  have i1: "intent ?s1 = Some ''urgent''"
    by (simp add: classify_message_urgent [OF u])
  have e1: "snd (classify_message T cfg llm_client st) = []"
    by (simp add: classify_message_urgent [OF u])
  have i2: "intent ?s2 = Some ''urgent''"
    using i1 by (simp add: retrieve_context_def)
  have g: "generate_response T cfg llm_client ?s2 =
     (?s2\<lparr>response := Some ESCALATION_MESSAGE, requires_escalation := Some True\<rparr>, [])"
    by (rule generate_response_escalated) (simp add: i2 get_or_simps)
  have i3: "intent ?s3 = Some ''urgent''" and r3: "response ?s3 = Some ESCALATION_MESSAGE"
    using i2 by (simp_all add: g)
  have c: "check_escalation T ?s3 =
     (?s3\<lparr>requires_escalation := Some True,
         escalation_reason := Some ''Urgent issue requiring immediate human attention'',
         sentiment_score := Some (extract_sentiment_indicators T (get_or (message ?s3) ''''))\<rparr>,
      [])"
    by (rule check_escalation_urgent) (simp add: i3 get_or_simps)
  have i4: "intent ?s4 = Some ''urgent''" and r4: "response ?s4 = Some ESCALATION_MESSAGE"
    and f4: "requires_escalation ?s4 = Some True"
    using i3 r3 by (simp_all add: c)
  have v: "fst (validate_response ?s4) = ?s4\<lparr>response_valid := Some True\<rparr>"
    using r4 escalation_message_valid by (rule validate_response_keeps_valid)
  show "intent (fst (run_pipeline T cfg llm_client st)) = Some ''urgent''"
    unfolding run_pipeline_fst v using i4 by simp
  show "requires_escalation (fst (run_pipeline T cfg llm_client st)) = Some True"
    unfolding run_pipeline_fst v using f4 by simp
  show "response (fst (run_pipeline T cfg llm_client st)) = Some ESCALATION_MESSAGE"
    unfolding run_pipeline_fst v using r4 by simp
  show "snd (run_pipeline T cfg llm_client st) = []"
    unfolding run_pipeline_snd using e1 g by simp
qed

text \<open>
  C4. On every state whose \<open>requires_escalation\<close> is true or whose intent is \<open>urgent\<close>,
  \<open>generate_response\<close> stores the fixed escalation message as it is (no tone adjustment is
  applied, whatever the helper functions are) and does not call the provider. In
  particular, for the message \<open>This is ridiculous!!! I've been charged twice!\<close>, which the
  urgency detector flags, the pipeline ends with the intent \<open>urgent\<close>, \<open>requires_escalation\<close>
  true and the fixed escalation message as response, and has called nothing.
\<close>

theorem generate_response_fixed_escalation_message:
  "(get_or (intent st) ''general'' = ''urgent'' \<or> truthy (requires_escalation st) \<longrightarrow>
      response (fst (generate_response T cfg llm_client st)) = Some ESCALATION_MESSAGE
      \<and> snd (generate_response T cfg llm_client st) = [])
   \<and> (message st = Some ''This is ridiculous!!! I've been charged twice!''
      \<and> detect_urgency T ''This is ridiculous!!! I've been charged twice!'' \<longrightarrow>
      intent (fst (run_pipeline T cfg llm_client st)) = Some ''urgent''
      \<and> requires_escalation (fst (run_pipeline T cfg llm_client st)) = Some True
      \<and> response (fst (run_pipeline T cfg llm_client st)) = Some ESCALATION_MESSAGE
      \<and> snd (run_pipeline T cfg llm_client st) = [])"
proof -
  have a: "get_or (intent st) ''general'' = ''urgent'' \<or> truthy (requires_escalation st) \<longrightarrow>
      response (fst (generate_response T cfg llm_client st)) = Some ESCALATION_MESSAGE
      \<and> snd (generate_response T cfg llm_client st) = []"
    by (auto simp: generate_response_escalated)
  have b: "message st = Some ''This is ridiculous!!! I've been charged twice!''
      \<and> detect_urgency T ''This is ridiculous!!! I've been charged twice!'' \<longrightarrow>
      intent (fst (run_pipeline T cfg llm_client st)) = Some ''urgent''
      \<and> requires_escalation (fst (run_pipeline T cfg llm_client st)) = Some True
      \<and> response (fst (run_pipeline T cfg llm_client st)) = Some ESCALATION_MESSAGE
      \<and> snd (run_pipeline T cfg llm_client st) = []"
  proof
    assume h: "message st = Some ''This is ridiculous!!! I've been charged twice!''
      \<and> detect_urgency T ''This is ridiculous!!! I've been charged twice!''"
    then have u: "detect_urgency T (get_or (message st) '''')"
      by (simp add: get_or_simps)
    show "intent (fst (run_pipeline T cfg llm_client st)) = Some ''urgent''
      \<and> requires_escalation (fst (run_pipeline T cfg llm_client st)) = Some True
      \<and> response (fst (run_pipeline T cfg llm_client st)) = Some ESCALATION_MESSAGE
      \<and> snd (run_pipeline T cfg llm_client st) = []"
      using run_pipeline_urgent [OF u] by simp
  qed
  from a b show ?thesis by (rule conjI)
qed

theorem generate_response_fixed_escalation_message_witness:
  "truthy (requires_escalation (empty_state\<lparr>intent := Some ''sales'',
        requires_escalation := Some True, sentiment_score := Some (- 1)\<rparr>))
   \<and> response (fst (generate_response spec_tools default_settings
        (Some (\<lambda>template msg context. Inr ''We have great prices.''))
        (empty_state\<lparr>intent := Some ''sales'', requires_escalation := Some True,
                     sentiment_score := Some (- 1)\<rparr>))) = Some ESCALATION_MESSAGE
   \<and> snd (generate_response spec_tools default_settings
        (Some (\<lambda>template msg context. Inr ''We have great prices.''))
        (empty_state\<lparr>intent := Some ''sales'', requires_escalation := Some True,
                     sentiment_score := Some (- 1)\<rparr>)) = []
   \<and> detect_urgency spec_tools ''This is ridiculous!!! I've been charged twice!''
   \<and> intent (fst (run_pipeline spec_tools default_settings None
        (empty_state\<lparr>message := Some ''This is ridiculous!!! I've been charged twice!'',
                     conversation_history := Some []\<rparr>))) = Some ''urgent''
   \<and> requires_escalation (fst (run_pipeline spec_tools default_settings None
        (empty_state\<lparr>message := Some ''This is ridiculous!!! I've been charged twice!'',
                     conversation_history := Some []\<rparr>))) = Some True
   \<and> response (fst (run_pipeline spec_tools default_settings None
        (empty_state\<lparr>message := Some ''This is ridiculous!!! I've been charged twice!'',
                     conversation_history := Some []\<rparr>))) = Some ESCALATION_MESSAGE"
proof -
  have t: "truthy (requires_escalation (empty_state\<lparr>intent := Some ''sales'',
        requires_escalation := Some True, sentiment_score := Some (- 1)\<rparr>))"
    by (simp add: truthy_simps)
  have u: "detect_urgency spec_tools ''This is ridiculous!!! I've been charged twice!''"
    by code_simp
  have m: "message (empty_state\<lparr>message := Some ''This is ridiculous!!! I've been charged twice!'',
                     conversation_history := Some []\<rparr>)
           = Some ''This is ridiculous!!! I've been charged twice!''"
    by simp
  show ?thesis
    using t u m
      generate_response_fixed_escalation_message
        [of "empty_state\<lparr>intent := Some ''sales'', requires_escalation := Some True,
                     sentiment_score := Some (- 1)\<rparr>"
            spec_tools default_settings
            "Some (\<lambda>template msg context. Inr ''We have great prices.'')"]
      generate_response_fixed_escalation_message
        [of "empty_state\<lparr>message := Some ''This is ridiculous!!! I've been charged twice!'',
                     conversation_history := Some []\<rparr>"
            spec_tools default_settings None]
    by blast
qed

section \<open>Rule-based classification\<close>

text \<open>The substring test of the model is the one of the specification: \<open>k in s\<close> holds
  exactly when \<open>s\<close> is some text, then \<open>k\<close>, then some text.\<close>

lemma starts_with_iff: "starts_with k s \<longleftrightarrow> (\<exists>q. s = k @ q)"
  by (induction k s rule: starts_with.induct) auto

lemma str_contains_iff: "str_contains k s \<longleftrightarrow> (\<exists>p q. s = p @ k @ q)"
proof (induction s)
  case Nil
  show ?case by simp
next
  case (Cons c cs)
  show ?case
  proof
    assume "str_contains k (c # cs)"
    then consider "starts_with k (c # cs)" | "str_contains k cs" by auto
    then show "\<exists>p q. c # cs = p @ k @ q"
    proof cases
      case 1
      then obtain q where "c # cs = k @ q" using starts_with_iff by blast
      then have "c # cs = [] @ k @ q" by simp
      then show ?thesis by blast
    next
      case 2
      then obtain p q where "cs = p @ k @ q" using Cons.IH by blast
      then have "c # cs = (c # p) @ k @ q" by simp
      then show ?thesis by blast
    qed
  next
    assume "\<exists>p q. c # cs = p @ k @ q"
    then obtain p q where pq: "c # cs = p @ k @ q" by blast
    show "str_contains k (c # cs)"
    proof (cases p)
      case Nil
      then have "starts_with k (c # cs)" using pq starts_with_iff by auto
      then show ?thesis by simp
    next
      case (Cons d ds)
      then have "cs = ds @ k @ q" using pq by simp
      then have "str_contains k cs" using Cons.IH by blast
      then show ?thesis by simp
    qed
  qed
qed

lemma list_ex_contains_iff:
  "list_ex (\<lambda>keyword. str_contains keyword s) ks \<longleftrightarrow> (\<exists>k\<in>set ks. \<exists>p q. s = p @ k @ q)"
  by (simp add: list_ex_iff str_contains_iff)

lemma classify_message_no_provider:
  "\<not> detect_urgency T (get_or (message st) '''') \<Longrightarrow>
   classify_message T cfg None st =
     (st\<lparr>language := Some (if agent_auto_detect_language cfg
                              then detect_language T (get_or (message st) '''')
                              else agent_default_language cfg),
         prompt_variant := Some (str_upper (agent_prompt_variant cfg)),
         intent := Some (rule_based_classification (get_or (message st) ''''))\<rparr>,
      [RuleBased (get_or (message st) '''')])"
  by (simp add: classify_message_def Let_def)

lemma generate_response_no_provider:
  "get_or (intent st) ''general'' \<noteq> ''urgent'' \<Longrightarrow> \<not> truthy (requires_escalation st) \<Longrightarrow>
   generate_response T cfg None st =
     (st\<lparr>response := Some (adjust_response_for_sentiment T
          (mock_response (get_or (intent st) ''general'')) (get_or (sentiment_score st) 0))\<rparr>, [])"
  by (simp add: generate_response_def Let_def)

lemma mock_response_sales: "mock_response ''sales'' = MOCK_SALES"
  by (simp add: mock_response_def MOCK_RESPONSES_def get_or_simps)

lemma pricing_is_sales:
  "rule_based_classification ''What's the pricing for your enterprise plan?'' = ''sales''"
  by code_simp

lemma mock_sales_valid: "is_valid_response MOCK_SALES"
  by code_simp

lemma run_pipeline_pricing:
  assumes m: "message st = Some ''What's the pricing for your enterprise plan?''"
    and nu: "\<not> detect_urgency T ''What's the pricing for your enterprise plan?''"
    and nf: "\<not> truthy (requires_escalation st)"
    and ad: "adjust_response_for_sentiment T MOCK_SALES (get_or (sentiment_score st) 0) = MOCK_SALES"
  shows "intent (fst (run_pipeline T cfg None st)) = Some ''sales''"
    and "response (fst (run_pipeline T cfg None st)) = Some MOCK_SALES"
    and "response_valid (fst (run_pipeline T cfg None st)) = Some True"
proof -
  let ?s1 = "fst (classify_message T cfg None st)"
  let ?s2 = "fst (retrieve_context T ?s1)"
  let ?s3 = "fst (generate_response T cfg None ?s2)"
  let ?s4 = "fst (check_escalation T ?s3)"
  have nu': "\<not> detect_urgency T (get_or (message st) '''')"
    using m nu by (simp add: get_or_simps)
  have c: "intent ?s1 = Some ''sales''" "requires_escalation ?s1 = requires_escalation st"
    "sentiment_score ?s1 = sentiment_score st"
    by (simp_all add: classify_message_no_provider [OF nu'] m get_or_simps pricing_is_sales)
  have r: "intent ?s2 = Some ''sales''" "requires_escalation ?s2 = requires_escalation st"
    "sentiment_score ?s2 = sentiment_score st"
    using c by (simp_all add: retrieve_context_def)
  have g: "generate_response T cfg None ?s2 =
     (?s2\<lparr>response := Some (adjust_response_for_sentiment T
          (mock_response (get_or (intent ?s2) ''general'')) (get_or (sentiment_score ?s2) 0))\<rparr>, [])"
    by (rule generate_response_no_provider) (simp_all add: r get_or_simps nf)
  have g3: "intent ?s3 = Some ''sales''" "response ?s3 = Some MOCK_SALES"
    unfolding g using r ad by (simp_all add: get_or_simps mock_response_sales)
  have g4: "intent ?s4 = Some ''sales''" "response ?s4 = Some MOCK_SALES"
    using g3 by (simp_all add: check_escalation_intent check_escalation_response)
  have v: "fst (validate_response ?s4) = ?s4\<lparr>response_valid := Some True\<rparr>"
    using g4(2) mock_sales_valid by (rule validate_response_keeps_valid)
  show "intent (fst (run_pipeline T cfg None st)) = Some ''sales''"
    unfolding run_pipeline_fst v using g4 by simp
  show "response (fst (run_pipeline T cfg None st)) = Some MOCK_SALES"
    unfolding run_pipeline_fst v using g4 by simp
  show "response_valid (fst (run_pipeline T cfg None st)) = Some True"
    unfolding run_pipeline_fst v by simp
qed

text \<open>
  C9. The rule-based classification tests the lowercased message for an occurrence of a
  sales keyword first, then of a support keyword, and returns \<open>general\<close> otherwise: the
  first set that matches wins. Consequently, for the message
  \<open>What's the pricing for your enterprise plan?\<close>, which the urgency detector does not flag,
  with no provider configured and a tone adjustment that leaves the sales reply as it is,
  the pipeline ends with the intent \<open>sales\<close>, the fixed sales mock response and
  \<open>response_valid\<close> true.
\<close>

theorem rule_based_classification_order:
  "rule_based_classification msg =
     (if \<exists>k\<in>set sales_keywords. \<exists>p q. str_lower msg = p @ k @ q then ''sales''
      else if \<exists>k\<in>set support_keywords. \<exists>p q. str_lower msg = p @ k @ q then ''support''
      else ''general'')
   \<and> (message st = Some ''What's the pricing for your enterprise plan?''
      \<and> \<not> detect_urgency T ''What's the pricing for your enterprise plan?''
      \<and> \<not> truthy (requires_escalation st)
      \<and> adjust_response_for_sentiment T MOCK_SALES (get_or (sentiment_score st) 0) = MOCK_SALES
      \<longrightarrow>
      intent (fst (run_pipeline T cfg None st)) = Some ''sales''
      \<and> response (fst (run_pipeline T cfg None st)) = Some MOCK_SALES
      \<and> response_valid (fst (run_pipeline T cfg None st)) = Some True)"
proof -
  have a: "rule_based_classification msg =
     (if \<exists>k\<in>set sales_keywords. \<exists>p q. str_lower msg = p @ k @ q then ''sales''
      else if \<exists>k\<in>set support_keywords. \<exists>p q. str_lower msg = p @ k @ q then ''support''
      else ''general'')"
    unfolding rule_based_classification_def Let_def list_ex_contains_iff by (rule refl)
  have b: "message st = Some ''What's the pricing for your enterprise plan?''
      \<and> \<not> detect_urgency T ''What's the pricing for your enterprise plan?''
      \<and> \<not> truthy (requires_escalation st)
      \<and> adjust_response_for_sentiment T MOCK_SALES (get_or (sentiment_score st) 0) = MOCK_SALES
      \<longrightarrow>
      intent (fst (run_pipeline T cfg None st)) = Some ''sales''
      \<and> response (fst (run_pipeline T cfg None st)) = Some MOCK_SALES
      \<and> response_valid (fst (run_pipeline T cfg None st)) = Some True"
    using run_pipeline_pricing [of st T cfg] by blast
  from a b show ?thesis by (rule conjI)
qed

theorem rule_based_classification_order_witness:
  "rule_based_classification ''I want to buy, but my order has a problem'' = ''sales''
   \<and> rule_based_classification ''My ORDER has a problem'' = ''support''
   \<and> rule_based_classification ''Hello there'' = ''general''
   \<and> \<not> detect_urgency spec_tools ''What's the pricing for your enterprise plan?''
   \<and> intent (fst (run_pipeline spec_tools default_settings None
        (empty_state\<lparr>message := Some ''What's the pricing for your enterprise plan?'',
                     conversation_history := Some []\<rparr>))) = Some ''sales''
   \<and> response (fst (run_pipeline spec_tools default_settings None
        (empty_state\<lparr>message := Some ''What's the pricing for your enterprise plan?'',
                     conversation_history := Some []\<rparr>))) = Some MOCK_SALES
   \<and> response_valid (fst (run_pipeline spec_tools default_settings None
        (empty_state\<lparr>message := Some ''What's the pricing for your enterprise plan?'',
                     conversation_history := Some []\<rparr>))) = Some True"
proof -
  let ?st = "empty_state\<lparr>message := Some ''What's the pricing for your enterprise plan?'',
                     conversation_history := Some []\<rparr>"
  have k: "rule_based_classification ''I want to buy, but my order has a problem'' = ''sales''"
    "rule_based_classification ''My ORDER has a problem'' = ''support''"
    "rule_based_classification ''Hello there'' = ''general''"
    by code_simp+
  have m: "message ?st = Some ''What's the pricing for your enterprise plan?''"
    by simp
  have nu: "\<not> detect_urgency spec_tools ''What's the pricing for your enterprise plan?''"
    by code_simp
  have nf: "\<not> truthy (requires_escalation ?st)"
    by (simp add: truthy_simps empty_state_def)
  have ad: "adjust_response_for_sentiment spec_tools MOCK_SALES (get_or (sentiment_score ?st) 0)
              = MOCK_SALES"
    by (simp add: spec_tools_def spec_adjust_response_for_sentiment_def get_or_simps
          empty_state_def)
  show ?thesis
    using k m nu nf ad
      rule_based_classification_order [of "''Hello there''" ?st spec_tools default_settings]
    by blast
qed

section \<open>Classification with a provider\<close>

text \<open>
  A reply that contains the marker always parses: some line contains the marker, since the
  marker has no line break, and that line has a second field, since the marker has a colon.
  Neither subscript of the parsing code can raise.
\<close>

lemma str_split_not_Nil: "str_split sep s \<noteq> []"
  by (induction s) (auto split: list.splits)

lemma str_split_length: "sep \<in> set s \<Longrightarrow> 2 \<le> length (str_split sep s)"
proof (induction s)
  case Nil
  then show ?case by simp
next
  case (Cons c cs)
  show ?case
  proof (cases "c = sep")
    case True
    then show ?thesis
      using str_split_not_Nil [of sep cs] by (cases "str_split sep cs") simp_all
  next
    case False
    then have "sep \<in> set cs" using Cons.prems by simp
    then have "2 \<le> length (str_split sep cs)" by (rule Cons.IH)
    then show ?thesis using False by (cases "str_split sep cs") simp_all
  qed
qed

lemma starts_with_first_field:
  "sep \<notin> set k \<Longrightarrow> starts_with k s \<Longrightarrow> starts_with k (hd (str_split sep s))"
proof (induction k s rule: starts_with.induct)
  case (1 s)
  show ?case by simp
next
  case (2 k ks)
  then show ?case by simp
next
  case (3 k ks c cs)
  then have ne: "c \<noteq> sep" and sw: "starts_with ks cs" and ns: "sep \<notin> set ks" and kc: "k = c"
    by auto
  have "starts_with ks (hd (str_split sep cs))" using "3.IH" ns sw by simp
  then show ?case
    using ne kc str_split_not_Nil [of sep cs] by (cases "str_split sep cs") simp_all
qed

lemma str_contains_Cons: "str_contains k s \<Longrightarrow> str_contains k (c # s)"
  by simp

lemma starts_with_contains: "starts_with k s \<Longrightarrow> str_contains k s"
  by (cases s) (auto elim: starts_with.elims)

lemma str_contains_field:
  "sep \<notin> set k \<Longrightarrow> str_contains k s \<Longrightarrow> \<exists>l\<in>set (str_split sep s). str_contains k l"
proof (induction s)
  case Nil
  then show ?case by simp
next
  case (Cons c cs)
  obtain w ws where sp: "str_split sep cs = w # ws"
    using str_split_not_Nil [of sep cs] by (cases "str_split sep cs") auto
  from Cons.prems(2) consider (here) "starts_with k (c # cs)" | (later) "str_contains k cs"
    by auto
  then show ?case
  proof cases
    case here
    then have "starts_with k (hd (str_split sep (c # cs)))"
      using Cons.prems(1) starts_with_first_field by blast
    then have "str_contains k (hd (str_split sep (c # cs)))"
      by (rule starts_with_contains)
    moreover have "hd (str_split sep (c # cs)) \<in> set (str_split sep (c # cs))"
      using str_split_not_Nil by (rule hd_in_set)
    ultimately show ?thesis by blast
  next
    case later
    then obtain l where l: "l \<in> set (w # ws)" "str_contains k l"
      using Cons.IH Cons.prems(1) sp by auto
    show ?thesis
    proof (cases "c = sep")
      case True
      then show ?thesis using l sp by auto
    next
      case False
      then have sp': "str_split sep (c # cs) = (c # w) # ws" using sp by simp
      show ?thesis
      proof (cases "l = w")
        case True
        then have "str_contains k (c # w)" using l(2) by simp
        then show ?thesis unfolding sp' by simp
      next
        case False
        then have "l \<in> set ws" using l(1) by simp
        then show ?thesis unfolding sp' using l(2) by auto
      qed
    qed
  qed
qed

lemma str_contains_set: "str_contains k s \<Longrightarrow> set k \<subseteq> set s"
  using str_contains_iff [of k s] by auto

lemma parse_classification_total:
  assumes "str_contains classification_marker response_text"
  shows "\<exists>i. parse_classification response_text = Inr i"
proof -
  have nl: "CHR 0x0A \<notin> set classification_marker"
    by (simp add: classification_marker_def)
  have "\<exists>l\<in>set (str_split CHR 0x0A response_text). str_contains classification_marker l"
    using nl assms by (rule str_contains_field)
  then have "filter (str_contains classification_marker) (str_split CHR 0x0A response_text) \<noteq> []"
    by (simp add: filter_empty_conv)
  then obtain intent_line ls where
    f: "filter (str_contains classification_marker) (str_split CHR 0x0A response_text)
          = intent_line # ls"
    by (cases "filter (str_contains classification_marker) (str_split CHR 0x0A response_text)")
       auto
  have "intent_line \<in> set (filter (str_contains classification_marker)
          (str_split CHR 0x0A response_text))"
    unfolding f by simp
  then have "str_contains classification_marker intent_line" by simp
  then have "set classification_marker \<subseteq> set intent_line" by (rule str_contains_set)
  then have "CHR '':'' \<in> set intent_line" by (auto simp: classification_marker_def)
  then have "2 \<le> length (str_split CHR '':'' intent_line)" by (rule str_split_length)
  then obtain a field rest where s: "str_split CHR '':'' intent_line = a # field # rest"
    by (cases "str_split CHR '':'' intent_line"; cases "tl (str_split CHR '':'' intent_line)")
       auto
  show ?thesis by (simp add: parse_classification_def f s)
qed

lemma rule_based_classification_range:
  "rule_based_classification msg \<in> {''sales'', ''support'', ''general''}"
  by (simp add: rule_based_classification_def Let_def)

lemma classify_message_provider_raises:
  "\<not> detect_urgency T (get_or (message st) '''') \<Longrightarrow>
   p CLASSIFICATION_PROMPT (get_or (message st) '''')
       (format_context T (get_or (conversation_history st) [])) = Inl e \<Longrightarrow>
   intent (fst (classify_message T cfg (Some p) st))
     = Some (rule_based_classification (get_or (message st) ''''))"
  by (simp add: classify_message_def classify_try_def Let_def)

lemma classify_message_no_marker:
  "\<not> detect_urgency T (get_or (message st) '''') \<Longrightarrow>
   p CLASSIFICATION_PROMPT (get_or (message st) '''')
       (format_context T (get_or (conversation_history st) [])) = Inr r \<Longrightarrow>
   \<not> str_contains classification_marker r \<Longrightarrow>
   intent (fst (classify_message T cfg (Some p) st))
     = Some (rule_based_classification (get_or (message st) ''''))"
  by (simp add: classify_message_def classify_try_def Let_def)

lemma classify_message_marker:
  "\<not> detect_urgency T (get_or (message st) '''') \<Longrightarrow>
   p CLASSIFICATION_PROMPT (get_or (message st) '''')
       (format_context T (get_or (conversation_history st) [])) = Inr r \<Longrightarrow>
   parse_classification r = Inr i \<Longrightarrow>
   str_contains classification_marker r \<Longrightarrow>
   intent (fst (classify_message T cfg (Some p) st)) = Some i"
  by (simp add: classify_message_def classify_try_def Let_def)

text \<open>
  C6, as stated, fails: when the reply of the provider holds the marker, the intent is the
  category that follows it, whatever it is. With the reply \<open>CLASSIFICATION: BILLING\<close> the
  intent is \<open>billing\<close>, which is none of the four fixed values.
\<close>

theorem classify_message_intent_counterexample:
  "intent (fst (classify_message spec_tools default_settings
       (Some (\<lambda>template msg context.
                Inr ''CLASSIFICATION: BILLING\<newline>REASON: the customer asks for a refund''))
       (empty_state\<lparr>message := Some ''I would like my money back''\<rparr>)))
     = Some ''billing''
   \<and> ''billing'' \<notin> {''support'', ''sales'', ''general'', ''urgent''}"
proof -
  have nu: "\<not> detect_urgency spec_tools (get_or (message
       (empty_state\<lparr>message := Some ''I would like my money back''\<rparr>)) '''')"
    by code_simp
  have m: "str_contains classification_marker
       ''CLASSIFICATION: BILLING\<newline>REASON: the customer asks for a refund''"
    by code_simp
  have p: "parse_classification
       ''CLASSIFICATION: BILLING\<newline>REASON: the customer asks for a refund'' = Inr ''billing''"
    by code_simp
  have "intent (fst (classify_message spec_tools default_settings
       (Some (\<lambda>template msg context.
                Inr ''CLASSIFICATION: BILLING\<newline>REASON: the customer asks for a refund''))
       (empty_state\<lparr>message := Some ''I would like my money back''\<rparr>)))
     = Some ''billing''"
    using nu _ p m by (rule classify_message_marker) simp
  then show ?thesis by simp
qed

text \<open>
  C6, amended. \<open>classify_message\<close> returns a state on every input, also when the provider
  raises: the exception is handled inside. The intent is \<open>urgent\<close> when the message is
  flagged as urgent. Otherwise, it is the result of the rule-based classifier, one of
  \<open>sales\<close>, \<open>support\<close> and \<open>general\<close>, when no provider is configured, when the provider
  raises, and when its reply does not contain the marker \<open>CLASSIFICATION:\<close>. When the reply
  contains the marker, the parsing succeeds and the intent is the parsed category: the
  text between the first and the second colon of the first line that contains the marker,
  stripped and lowercased, whether or not it is one of the four fixed values.
\<close>

theorem classify_message_intent:
  "(detect_urgency T (get_or (message st) '''') \<longrightarrow>
      intent (fst (classify_message T cfg llm_client st)) = Some ''urgent'')
   \<and> (\<not> detect_urgency T (get_or (message st) '''') \<and> llm_client = None \<longrightarrow>
      intent (fst (classify_message T cfg llm_client st))
        = Some (rule_based_classification (get_or (message st) '''')))
   \<and> (\<forall>p e. \<not> detect_urgency T (get_or (message st) '''') \<and> llm_client = Some p
        \<and> p CLASSIFICATION_PROMPT (get_or (message st) '''')
             (format_context T (get_or (conversation_history st) [])) = Inl e \<longrightarrow>
      intent (fst (classify_message T cfg llm_client st))
        = Some (rule_based_classification (get_or (message st) '''')))
   \<and> (\<forall>p r. \<not> detect_urgency T (get_or (message st) '''') \<and> llm_client = Some p
        \<and> p CLASSIFICATION_PROMPT (get_or (message st) '''')
             (format_context T (get_or (conversation_history st) [])) = Inr r
        \<and> \<not> str_contains ''CLASSIFICATION:'' r \<longrightarrow>
      intent (fst (classify_message T cfg llm_client st))
        = Some (rule_based_classification (get_or (message st) '''')))
   \<and> (\<forall>p r. \<not> detect_urgency T (get_or (message st) '''') \<and> llm_client = Some p
        \<and> p CLASSIFICATION_PROMPT (get_or (message st) '''')
             (format_context T (get_or (conversation_history st) [])) = Inr r
        \<and> str_contains ''CLASSIFICATION:'' r \<longrightarrow>
      (\<exists>i. parse_classification r = Inr i
           \<and> intent (fst (classify_message T cfg llm_client st)) = Some i))
   \<and> rule_based_classification (get_or (message st) '''')
        \<in> {''sales'', ''support'', ''general''}"
proof -
  let ?msg = "get_or (message st) ''''"
  let ?ctx = "format_context T (get_or (conversation_history st) [])"
  let ?i = "intent (fst (classify_message T cfg llm_client st))"
  have a: "detect_urgency T ?msg \<longrightarrow> ?i = Some ''urgent''"
    by (simp add: classify_message_urgent)
  have b: "\<not> detect_urgency T ?msg \<and> llm_client = None \<longrightarrow>
      ?i = Some (rule_based_classification ?msg)"
    by (simp add: classify_message_no_provider)
  have c: "\<forall>p e. \<not> detect_urgency T ?msg \<and> llm_client = Some p
        \<and> p CLASSIFICATION_PROMPT ?msg ?ctx = Inl e \<longrightarrow>
      ?i = Some (rule_based_classification ?msg)"
    using classify_message_provider_raises by blast
  have d: "\<forall>p r. \<not> detect_urgency T ?msg \<and> llm_client = Some p
        \<and> p CLASSIFICATION_PROMPT ?msg ?ctx = Inr r
        \<and> \<not> str_contains ''CLASSIFICATION:'' r \<longrightarrow>
      ?i = Some (rule_based_classification ?msg)"
    using classify_message_no_marker [unfolded classification_marker_def] by blast
  have e: "\<forall>p r. \<not> detect_urgency T ?msg \<and> llm_client = Some p
        \<and> p CLASSIFICATION_PROMPT ?msg ?ctx = Inr r
        \<and> str_contains ''CLASSIFICATION:'' r \<longrightarrow>
      (\<exists>i. parse_classification r = Inr i \<and> ?i = Some i)"
  proof (intro allI impI)
    fix p r
    assume h: "\<not> detect_urgency T ?msg \<and> llm_client = Some p
        \<and> p CLASSIFICATION_PROMPT ?msg ?ctx = Inr r
        \<and> str_contains ''CLASSIFICATION:'' r"
    then have m: "str_contains classification_marker r"
      by (simp add: classification_marker_def)
    then obtain i where i: "parse_classification r = Inr i"
      using parse_classification_total by blast
    have "intent (fst (classify_message T cfg (Some p) st)) = Some i"
      using h i m classify_message_marker [of T st p r i cfg] by blast
    then show "\<exists>i. parse_classification r = Inr i \<and> ?i = Some i"
      using h i by auto
  qed
  have f: "rule_based_classification ?msg \<in> {''sales'', ''support'', ''general''}"
    by (rule rule_based_classification_range)
  from a b c d e f show ?thesis by blast
qed

theorem classify_message_intent_witness:
  "\<not> detect_urgency spec_tools ''I have an issue with my order #12345''
   \<and> intent (fst (classify_message spec_tools default_settings
        (Some (\<lambda>template msg context. Inl (ProviderError ''timeout'')))
        (empty_state\<lparr>message := Some ''I have an issue with my order #12345''\<rparr>)))
       = Some ''support''
   \<and> intent (fst (classify_message spec_tools default_settings
        (Some (\<lambda>template msg context. Inr ''CLASSIFICATION: SALES\<newline>REASON: asks for a price''))
        (empty_state\<lparr>message := Some ''I have an issue with my order #12345''\<rparr>)))
       = Some ''sales''"
proof -
  let ?st = "empty_state\<lparr>message := Some ''I have an issue with my order #12345''\<rparr>"
  let ?p = "\<lambda>template msg context :: string. Inl (ProviderError ''timeout'') :: exn + string"
  let ?q = "\<lambda>template msg context :: string.
              Inr ''CLASSIFICATION: SALES\<newline>REASON: asks for a price'' :: exn + string"
  have g: "get_or (message ?st) '''' = ''I have an issue with my order #12345''"
    by (simp add: get_or_simps)
  have nu: "\<not> detect_urgency spec_tools ''I have an issue with my order #12345''"
    by code_simp
  have nu': "\<not> detect_urgency spec_tools (get_or (message ?st) '''')"
    unfolding g by (rule nu)
  have rb: "rule_based_classification ''I have an issue with my order #12345'' = ''support''"
    by code_simp
  have mk: "str_contains ''CLASSIFICATION:''
              ''CLASSIFICATION: SALES\<newline>REASON: asks for a price''"
    by code_simp
  have pc: "parse_classification ''CLASSIFICATION: SALES\<newline>REASON: asks for a price''
              = Inr ''sales''"
    by code_simp
  have "intent (fst (classify_message spec_tools default_settings (Some ?p) ?st))
             = Some (rule_based_classification (get_or (message ?st) ''''))"
    by (rule classify_message_intent
              [THEN conjunct2, THEN conjunct2, THEN conjunct1, rule_format,
               where p = ?p and e = "ProviderError ''timeout''"])
       (intro conjI nu' refl)
  then have a: "intent (fst (classify_message spec_tools default_settings (Some ?p) ?st))
             = Some ''support''"
    unfolding g rb .
  have "\<exists>i. parse_classification ''CLASSIFICATION: SALES\<newline>REASON: asks for a price'' = Inr i
           \<and> intent (fst (classify_message spec_tools default_settings (Some ?q) ?st)) = Some i"
    by (rule classify_message_intent
              [THEN conjunct2, THEN conjunct2, THEN conjunct2, THEN conjunct2, THEN conjunct1,
               rule_format, where p = ?q])
       (intro conjI nu' refl mk)
  then have b: "intent (fst (classify_message spec_tools default_settings (Some ?q) ?st))
             = Some ''sales''"
    unfolding pc by simp
  from nu a b show ?thesis by (intro conjI)
qed

section \<open>The language directive\<close>

lemma language_hint_not_Nil: "language_hint lang \<noteq> []"
  by (simp add: language_hint_def)

lemma wrap_prompt_changes_iff:
  "wrap_prompt_with_language_hint base_prompt lang \<noteq> base_prompt
     \<longleftrightarrow> lang \<noteq> '''' \<and> lang \<noteq> ''en''"
  by (simp add: wrap_prompt_with_language_hint_def language_hint_not_Nil)

lemma generate_response_invokes:
  "get_or (intent st) ''general'' \<noteq> ''urgent'' \<Longrightarrow> \<not> truthy (requires_escalation st) \<Longrightarrow>
   snd (generate_response T cfg (Some p) st) =
     [Invoke (wrap_prompt_with_language_hint
                (get_prompt_for_intent T (get_or (intent st) ''general'')
                   (get_or (prompt_variant st) (str_upper (agent_prompt_variant cfg))))
                (get_or (language st) (agent_default_language cfg)))
             (get_or (message st) '''') (get_or (formatted_context st) '''')]"
  by (simp add: generate_response_def Let_def split: sum.splits)

lemma general_A_prompt:
  "get_prompt_for_intent spec_tools ''general'' ''A'' = GENERAL_RESPONSE_PROMPT_A"
  by (simp add: get_prompt_for_intent_def spec_tools_def spec_select_prompt_variant_def
        prompt_mapping_def get_or_simps)

text \<open>
  C8, as stated, fails in both directions once the configured default language is not
  \<open>en\<close>. With the default \<open>fr\<close>: a state whose language is \<open>fr\<close>, the default, gets the
  directive prepended; a state whose language is \<open>en\<close>, not the default, gets the base
  template unchanged.
\<close>

theorem language_directive_counterexample:
  "get_or (language (empty_state\<lparr>message := Some ''Bonjour'', intent := Some ''general'',
                                 language := Some ''fr'', prompt_variant := Some ''A''\<rparr>))
          (agent_default_language (default_settings\<lparr>agent_default_language := ''fr''\<rparr>))
     = agent_default_language (default_settings\<lparr>agent_default_language := ''fr''\<rparr>)
   \<and> snd (generate_response spec_tools (default_settings\<lparr>agent_default_language := ''fr''\<rparr>)
        (Some (\<lambda>template msg context. Inr ''Bonjour, comment puis-je vous aider ?''))
        (empty_state\<lparr>message := Some ''Bonjour'', intent := Some ''general'',
                     language := Some ''fr'', prompt_variant := Some ''A''\<rparr>))
     = [Invoke (''You MUST answer in language code 'fr'.\<newline>\<newline>''
                  @ GENERAL_RESPONSE_PROMPT_A) ''Bonjour'' '''']
   \<and> get_or (language (empty_state\<lparr>message := Some ''Hello'', intent := Some ''general'',
                                 language := Some ''en'', prompt_variant := Some ''A''\<rparr>))
          (agent_default_language (default_settings\<lparr>agent_default_language := ''fr''\<rparr>))
     \<noteq> agent_default_language (default_settings\<lparr>agent_default_language := ''fr''\<rparr>)
   \<and> snd (generate_response spec_tools (default_settings\<lparr>agent_default_language := ''fr''\<rparr>)
        (Some (\<lambda>template msg context. Inr ''Hello, how can I help you?''))
        (empty_state\<lparr>message := Some ''Hello'', intent := Some ''general'',
                     language := Some ''en'', prompt_variant := Some ''A''\<rparr>))
     = [Invoke GENERAL_RESPONSE_PROMPT_A ''Hello'' '''']"
proof -
  let ?cfg = "default_settings\<lparr>agent_default_language := ''fr''\<rparr>"
  let ?fr = "empty_state\<lparr>message := Some ''Bonjour'', intent := Some ''general'',
                     language := Some ''fr'', prompt_variant := Some ''A''\<rparr>"
  let ?en = "empty_state\<lparr>message := Some ''Hello'', intent := Some ''general'',
                     language := Some ''en'', prompt_variant := Some ''A''\<rparr>"
  have nfr: "get_or (intent ?fr) ''general'' \<noteq> ''urgent''" "\<not> truthy (requires_escalation ?fr)"
    by (simp_all add: get_or_simps truthy_simps empty_state_def)
  have nen: "get_or (intent ?en) ''general'' \<noteq> ''urgent''" "\<not> truthy (requires_escalation ?en)"
    by (simp_all add: get_or_simps truthy_simps empty_state_def)
  have afr: "get_or (intent ?fr) ''general'' = ''general''"
    "get_or (prompt_variant ?fr) (str_upper (agent_prompt_variant ?cfg)) = ''A''"
    "get_or (language ?fr) (agent_default_language ?cfg) = ''fr''"
    "get_or (message ?fr) '''' = ''Bonjour''"
    "get_or (formatted_context ?fr) '''' = ''''"
    by (simp_all add: get_or_simps empty_state_def)
  have aen: "get_or (intent ?en) ''general'' = ''general''"
    "get_or (prompt_variant ?en) (str_upper (agent_prompt_variant ?cfg)) = ''A''"
    "get_or (language ?en) (agent_default_language ?cfg) = ''en''"
    "get_or (message ?en) '''' = ''Hello''"
    "get_or (formatted_context ?en) '''' = ''''"
    by (simp_all add: get_or_simps empty_state_def)
  have en: "wrap_prompt_with_language_hint GENERAL_RESPONSE_PROMPT_A ''en''
       = GENERAL_RESPONSE_PROMPT_A"
    by (simp add: wrap_prompt_with_language_hint_def)
  have fr: "wrap_prompt_with_language_hint GENERAL_RESPONSE_PROMPT_A ''fr''
       = ''You MUST answer in language code 'fr'.\<newline>\<newline>'' @ GENERAL_RESPONSE_PROMPT_A"
    by (simp add: wrap_prompt_with_language_hint_def language_hint_def)
  have c1: "get_or (language ?fr) (agent_default_language ?cfg) = agent_default_language ?cfg"
    by (simp add: get_or_simps)
  have c3: "get_or (language ?en) (agent_default_language ?cfg) \<noteq> agent_default_language ?cfg"
    by (simp add: get_or_simps)
  have c2: "snd (generate_response spec_tools ?cfg
        (Some (\<lambda>template msg context. Inr ''Bonjour, comment puis-je vous aider ?'')) ?fr)
     = [Invoke (''You MUST answer in language code 'fr'.\<newline>\<newline>''
                  @ GENERAL_RESPONSE_PROMPT_A) ''Bonjour'' '''']"
    unfolding generate_response_invokes [OF nfr] afr general_A_prompt fr by (rule refl)
  have c4: "snd (generate_response spec_tools ?cfg
        (Some (\<lambda>template msg context. Inr ''Hello, how can I help you?'')) ?en)
     = [Invoke GENERAL_RESPONSE_PROMPT_A ''Hello'' '''']"
    unfolding generate_response_invokes [OF nen] aen general_A_prompt en by (rule refl)
  from c1 c2 c3 c4 show ?thesis by (intro conjI)
qed

text \<open>
  C8, amended. On the path without escalation \<open>generate_response\<close> gives the provider the
  template that \<open>_wrap_prompt_with_language_hint\<close> builds from the template of the intent
  and the language of the state (the configured default when the state has none). The
  language directive is prepended if and only if that language is not empty and differs
  from \<open>en\<close>; when it is \<open>en\<close> or empty, the base template is used unchanged.
\<close>

theorem language_directive_rule:
  "(get_or (intent st) ''general'' \<noteq> ''urgent'' \<and> \<not> truthy (requires_escalation st) \<longrightarrow>
      snd (generate_response T cfg (Some p) st) =
        [Invoke (wrap_prompt_with_language_hint
                   (get_prompt_for_intent T (get_or (intent st) ''general'')
                      (get_or (prompt_variant st) (str_upper (agent_prompt_variant cfg))))
                   (get_or (language st) (agent_default_language cfg)))
                (get_or (message st) '''') (get_or (formatted_context st) '''')])
   \<and> wrap_prompt_with_language_hint base_prompt lang =
        (if lang \<noteq> '''' \<and> lang \<noteq> ''en''
         then ''You MUST answer in language code '' @ [CHR 0x27] @ lang @ [CHR 0x27]
              @ ''.\<newline>\<newline>'' @ base_prompt
         else base_prompt)
   \<and> (wrap_prompt_with_language_hint base_prompt lang \<noteq> base_prompt
        \<longleftrightarrow> lang \<noteq> '''' \<and> lang \<noteq> ''en'')"
proof -
  have a: "get_or (intent st) ''general'' \<noteq> ''urgent'' \<and> \<not> truthy (requires_escalation st) \<longrightarrow>
      snd (generate_response T cfg (Some p) st) =
        [Invoke (wrap_prompt_with_language_hint
                   (get_prompt_for_intent T (get_or (intent st) ''general'')
                      (get_or (prompt_variant st) (str_upper (agent_prompt_variant cfg))))
                   (get_or (language st) (agent_default_language cfg)))
                (get_or (message st) '''') (get_or (formatted_context st) '''')]"
    using generate_response_invokes by blast
  have b: "wrap_prompt_with_language_hint base_prompt lang =
        (if lang \<noteq> '''' \<and> lang \<noteq> ''en''
         then ''You MUST answer in language code '' @ [CHR 0x27] @ lang @ [CHR 0x27]
              @ ''.\<newline>\<newline>'' @ base_prompt
         else base_prompt)"
    by (simp add: wrap_prompt_with_language_hint_def language_hint_def)
  have c: "wrap_prompt_with_language_hint base_prompt lang \<noteq> base_prompt
        \<longleftrightarrow> lang \<noteq> '''' \<and> lang \<noteq> ''en''"
    by (rule wrap_prompt_changes_iff)
  from a b c show ?thesis by blast
qed

theorem language_directive_rule_witness:
  "get_or (intent (empty_state\<lparr>message := Some ''Bonjour'', intent := Some ''general'',
                                language := Some ''fr'', prompt_variant := Some ''A''\<rparr>))
      ''general'' \<noteq> ''urgent''
   \<and> \<not> truthy (requires_escalation (empty_state\<lparr>message := Some ''Bonjour'',
          intent := Some ''general'', language := Some ''fr'', prompt_variant := Some ''A''\<rparr>))
   \<and> snd (generate_response spec_tools default_settings
        (Some (\<lambda>template msg context. Inr ''Bonjour, comment puis-je vous aider ?''))
        (empty_state\<lparr>message := Some ''Bonjour'', intent := Some ''general'',
                     language := Some ''fr'', prompt_variant := Some ''A''\<rparr>))
     = [Invoke (''You MUST answer in language code 'fr'.\<newline>\<newline>''
                  @ GENERAL_RESPONSE_PROMPT_A) ''Bonjour'' '''']
   \<and> wrap_prompt_with_language_hint GENERAL_RESPONSE_PROMPT_A ''en''
       = GENERAL_RESPONSE_PROMPT_A"
proof -
  let ?fr = "empty_state\<lparr>message := Some ''Bonjour'', intent := Some ''general'',
                     language := Some ''fr'', prompt_variant := Some ''A''\<rparr>"
  let ?p = "\<lambda>template msg context :: string.
              Inr ''Bonjour, comment puis-je vous aider ?'' :: exn + string"
  have nfr: "get_or (intent ?fr) ''general'' \<noteq> ''urgent''" "\<not> truthy (requires_escalation ?fr)"
    by (simp_all add: get_or_simps truthy_simps empty_state_def)
  have ev: "snd (generate_response spec_tools default_settings (Some ?p) ?fr) =
        [Invoke (wrap_prompt_with_language_hint
                   (get_prompt_for_intent spec_tools (get_or (intent ?fr) ''general'')
                      (get_or (prompt_variant ?fr)
                         (str_upper (agent_prompt_variant default_settings))))
                   (get_or (language ?fr) (agent_default_language default_settings)))
                (get_or (message ?fr) '''') (get_or (formatted_context ?fr) '''')]"
    by (rule language_directive_rule [THEN conjunct1, rule_format]) (intro conjI nfr)
  have en: "wrap_prompt_with_language_hint GENERAL_RESPONSE_PROMPT_A ''en''
       = GENERAL_RESPONSE_PROMPT_A"
    by (simp add: wrap_prompt_with_language_hint_def)
  have fr: "wrap_prompt_with_language_hint GENERAL_RESPONSE_PROMPT_A ''fr''
       = ''You MUST answer in language code 'fr'.\<newline>\<newline>'' @ GENERAL_RESPONSE_PROMPT_A"
    by (simp add: wrap_prompt_with_language_hint_def language_hint_def)
  have args: "get_or (intent ?fr) ''general'' = ''general''"
    "get_or (prompt_variant ?fr) (str_upper (agent_prompt_variant default_settings)) = ''A''"
    "get_or (language ?fr) (agent_default_language default_settings) = ''fr''"
    "get_or (message ?fr) '''' = ''Bonjour''"
    "get_or (formatted_context ?fr) '''' = ''''"
    by (simp_all add: get_or_simps empty_state_def)
  have ev': "snd (generate_response spec_tools default_settings (Some ?p) ?fr) =
     [Invoke (''You MUST answer in language code 'fr'.\<newline>\<newline>''
                  @ GENERAL_RESPONSE_PROMPT_A) ''Bonjour'' '''']"
    unfolding ev args general_A_prompt fr by (rule refl)
  from nfr ev' en show ?thesis by (intro conjI)
qed

end
